theory Spec2Isabelle
  imports Complex_Main "HOL-Library.Word" "HOL-Library.Log_Nat"
begin

section \<open>JavaScript numbers\<close>

text \<open>
  The server computes loudness and durations with JavaScript numbers, which are IEEE
  doubles. \<open>Fin a\<close> is a finite value (\<open>Fin 0\<close> is the zero with the positive sign),
  \<open>NegZero\<close> is the zero with the negative sign (\<open>parseInt('-0')\<close>), and the special
  values are the ones the code can produce: \<open>0 / 0\<close> is NaN, \<open>x / 0\<close> is an infinity,
  \<open>parseInt\<close> of a string that is not a number is NaN.
\<close>

datatype jsnum = NaN | NegInf | Fin real | NegZero | PosInf

fun negative :: "jsnum \<Rightarrow> bool" where
  "negative NegInf = True"
| "negative NegZero = True"
| "negative (Fin a) = (a < 0)"
| "negative _ = False"

fun magnitude :: "jsnum \<Rightarrow> real" where
  "magnitude (Fin a) = \<bar>a\<bar>"
| "magnitude _ = 0"

fun infinite :: "jsnum \<Rightarrow> bool" where
  "infinite NegInf = True"
| "infinite PosInf = True"
| "infinite _ = False"

fun zero :: "jsnum \<Rightarrow> bool" where
  "zero NegZero = True"
| "zero (Fin a) = (a = 0)"
| "zero _ = False"

definition signedInf :: "bool \<Rightarrow> jsnum" where
  "signedInf neg = (if neg then NegInf else PosInf)"

definition signed :: "bool \<Rightarrow> real \<Rightarrow> jsnum" where
  "signed neg m =
     (if m = 0 then (if neg then NegZero else Fin 0) else Fin (if neg then - m else m))"

text \<open>
  The operations before rounding: the special cases of IEEE arithmetic and the sign of a
  zero result, with the exact value where the result is a finite number.
\<close>

definition js_mul :: "jsnum \<Rightarrow> jsnum \<Rightarrow> jsnum" where
  "js_mul a b =
     (if a = NaN \<or> b = NaN then NaN
      else if infinite a \<or> infinite b
        then (if zero a \<or> zero b then NaN else signedInf (negative a \<noteq> negative b))
      else signed (negative a \<noteq> negative b) (magnitude a * magnitude b))"

definition js_div :: "jsnum \<Rightarrow> jsnum \<Rightarrow> jsnum" where
  "js_div a b =
     (if a = NaN \<or> b = NaN then NaN
      else if infinite a
        then (if infinite b then NaN else signedInf (negative a \<noteq> negative b))
      else if infinite b then signed (negative a \<noteq> negative b) 0
      else if zero b
        then (if zero a then NaN else signedInf (negative a \<noteq> negative b))
      else signed (negative a \<noteq> negative b) (magnitude a / magnitude b))"

definition js_add :: "jsnum \<Rightarrow> jsnum \<Rightarrow> jsnum" where
  "js_add a b =
     (if a = NaN \<or> b = NaN then NaN
      else if infinite a
        then (if infinite b \<and> negative a \<noteq> negative b then NaN else a)
      else if infinite b then b
      else if zero a \<and> zero b
        then (if negative a \<and> negative b then NegZero else Fin 0)
      else
        let s = (if negative a then - magnitude a else magnitude a) +
                (if negative b then - magnitude b else magnitude b)
        in signed (s < 0) \<bar>s\<bar>)"

fun js_sqrt :: "jsnum \<Rightarrow> jsnum" where
  "js_sqrt (Fin a) = (if a < 0 then NaN else Fin (sqrt a))"
| "js_sqrt NegZero = NegZero"
| "js_sqrt PosInf = PosInf"
| "js_sqrt _ = NaN"

text \<open>
  Rounding to the nearest double, ties to the even mantissa. For \<open>x > 0\<close>,
  \<open>exponent x\<close> is the \<open>k\<close> with \<open>2\<^sup>k \<le> x < 2\<^sup>k\<^sup>+\<^sup>1\<close>; a double has 53 bits of
  mantissa, so the doubles around \<open>x\<close> are the multiples of \<open>2\<^sup>k\<^sup>-\<^sup>5\<^sup>2\<close>, and of
  \<open>2\<^sup>-\<^sup>1\<^sup>0\<^sup>7\<^sup>4\<close> in the subnormal range. A result of \<open>2\<^sup>1\<^sup>0\<^sup>2\<^sup>4\<close> or more is an
  infinity, and a result that rounds to zero keeps the sign.
\<close>

definition exponent :: "real \<Rightarrow> int" where
  "exponent x =
     (if 1 \<le> x then bitlen \<lfloor>x\<rfloor> - 1 else - bitlen (\<lceil>1 / x\<rceil> - 1))"

definition twoTo :: "int \<Rightarrow> real" where
  "twoTo e = (if 0 \<le> e then 2 ^ nat e else 1 / 2 ^ nat (- e))"

definition nearestEven :: "real \<Rightarrow> int" where
  "nearestEven q =
     (let n = \<lfloor>q\<rfloor>; r = q - of_int n
      in if r < 1 / 2 then n else if 1 / 2 < r then n + 1 else if even n then n else n + 1)"

definition round64 :: "real \<Rightarrow> real" where
  "round64 x =
     (if x \<le> 0 then 0
      else let e = max (exponent x - 52) (- 1074)
           in of_int (nearestEven (x / twoTo e)) * twoTo e)"

definition fl :: "jsnum \<Rightarrow> jsnum" where
  "fl x =
     (case x of
        Fin a \<Rightarrow>
          if a = 0 then Fin 0
          else if 2 ^ 1024 \<le> round64 \<bar>a\<bar> then signedInf (a < 0)
          else signed (a < 0) (round64 \<bar>a\<bar>)
      | _ \<Rightarrow> x)"

text \<open>Comparisons with NaN are false, whichever way round; the two zeros are equal.\<close>

fun js_lt :: "jsnum \<Rightarrow> jsnum \<Rightarrow> bool" where
  "js_lt NaN _ = False"
| "js_lt _ NaN = False"
| "js_lt NegInf NegInf = False"
| "js_lt NegInf _ = True"
| "js_lt _ NegInf = False"
| "js_lt PosInf _ = False"
| "js_lt _ PosInf = True"
| "js_lt (Fin a) (Fin b) = (a < b)"
| "js_lt (Fin a) NegZero = (a < 0)"
| "js_lt NegZero (Fin b) = (0 < b)"
| "js_lt NegZero NegZero = False"

definition js_gt :: "jsnum \<Rightarrow> jsnum \<Rightarrow> bool" where
  "js_gt a b = js_lt b a"

fun js_le :: "jsnum \<Rightarrow> jsnum \<Rightarrow> bool" where
  "js_le NaN _ = False"
| "js_le _ NaN = False"
| "js_le a b = (\<not> js_lt b a)"

section \<open>Activity detector\<close>

type_synonym byte = "8 word"
type_synonym buffer = "byte list"

text \<open>
  \<open>new Int16Array(buffer.buffer, buffer.byteOffset, buffer.byteLength / 2)\<close>: the length
  argument is truncated to an integer, so the view holds the complete little-endian
  pairs of the buffer and a trailing single byte is outside it.
\<close>

fun int16Array :: "buffer \<Rightarrow> int list" where
  "int16Array (lo # hi # rest) = sint (word_cat hi lo :: 16 word) # int16Array rest"
| "int16Array _ = []"

text \<open>
  \<open>calcRMS\<close>: the loop adds \<open>(samples[i] / 32768)\<^sup>2\<close> to \<open>sumSq\<close>, and the result is
  \<open>Math.sqrt(sumSq / samples.length)\<close>. The loudness is kept as the exact value: the
  squares and their sums are exact in doubles for a body within the 5 MB limit of the
  route, and the rounding of the quotient and of the root is too small to move a
  loudness across the threshold 0.02.
\<close>

definition sumSq :: "int list \<Rightarrow> real" where
  "sumSq samples =
     foldl (\<lambda>acc x. acc + (real_of_int x / 32768) * (real_of_int x / 32768)) 0 samples"

definition calcRMS :: "buffer \<Rightarrow> jsnum" where
  "calcRMS buffer =
     (let samples = int16Array buffer
      in js_sqrt (js_div (Fin (sumSq samples)) (Fin (real (length samples)))))"

section \<open>The provider's reply\<close>

text \<open>
  The body of the provider's reply after \<open>resp.json()\<close>. A JavaScript value that may be
  \<open>undefined\<close> is a \<open>json option\<close>. An object keeps its members in the order of the
  text; \<open>JSON.parse\<close> lets the last of several equal keys win.
\<close>

datatype json =
    JNull
  | JBool bool
  | JNum real
  | JStr string
  | JArr "json list"
  | JObj "(string \<times> json) list"

text \<open>\<open>v?.name\<close> for the member names the server reads.\<close>

fun member :: "string \<Rightarrow> json option \<Rightarrow> json option" where
  "member name (Some (JObj kvs)) = map_of (rev kvs) name"
| "member name _ = None"

text \<open>\<open>v?.[0]\<close>.\<close>

fun first :: "json option \<Rightarrow> json option" where
  "first (Some (JArr xs)) = (case xs of [] \<Rightarrow> None | x # _ \<Rightarrow> Some x)"
| "first (Some (JObj kvs)) = map_of (rev kvs) ''0''"
| "first (Some (JStr s)) = (case s of [] \<Rightarrow> None | c # _ \<Rightarrow> Some (JStr [c]))"
| "first _ = None"

fun truthy :: "json option \<Rightarrow> bool" where
  "truthy None = False"
| "truthy (Some JNull) = False"
| "truthy (Some (JBool b)) = b"
| "truthy (Some (JNum n)) = (n \<noteq> 0)"
| "truthy (Some (JStr s)) = (s \<noteq> [])"
| "truthy (Some (JArr _)) = True"
| "truthy (Some (JObj _)) = True"

text \<open>
  \<open>json?.results?.channels?.[0]?.alternatives?.[0]?.transcript || ''\<close>
\<close>

definition extractTranscript :: "json \<Rightarrow> json" where
  "extractTranscript body =
     (let t = member ''transcript'' (first (member ''alternatives''
                (first (member ''channels'' (member ''results'' (Some body))))))
      in case t of
           None \<Rightarrow> JStr []
         | Some v \<Rightarrow> if truthy t then v else JStr [])"

section \<open>Server state\<close>

record session =
  audio :: "buffer list"
  lastHeard :: int
  startedTalking :: bool
  rmsActiveTime :: jsnum
  sampleRate :: jsnum

text \<open>
  A scratch file \<open>audio_${id}_${Date.now()}.raw\<close> in the temporary directory is named by
  the id and the clock reading.
\<close>

type_synonym path = "string \<times> int"

text \<open>
  A call of \<open>finalizeAndTranscribe\<close> that is suspended at \<open>await fetch(...)\<close>: the id, the
  scratch file, and the request it has sent.
\<close>

record job =
  jobId :: string
  tmpFile :: path
  jobRate :: jsnum
  fileData :: buffer

datatype logline =
    LogSilence string
  | LogNoAudio string
  | LogTranscript string json
  | LogDeepgramError string

text \<open>
  The two maps of the process, the pending \<open>setTimeout\<close> callbacks (due time and id to
  delete), the scratch files, the suspended finalize calls, and what was written to
  the console.
\<close>

record server =
  sessions :: "string \<rightharpoonup> session"
  transcripts :: "string \<rightharpoonup> json"
  timers :: "(int \<times> string) list"
  files :: "path \<rightharpoonup> buffer"
  inflight :: "job list"
  console :: "logline list"

definition emptyServer :: server where
  "emptyServer =
     \<lparr>sessions = Map.empty, transcripts = Map.empty, timers = [], files = Map.empty,
      inflight = [], console = []\<rparr>"

datatype error = TypeError | WriteError | FetchError | ParseError | ENOENT

text \<open>\<open>req.query.id || 'default'\<close>\<close>

definition queryId :: "string option \<Rightarrow> string" where
  "queryId q = (case q of None \<Rightarrow> ''default'' | Some s \<Rightarrow> if s = [] then ''default'' else s)"

section \<open>Finalization\<close>

text \<open>
  What \<open>fs.writeFileSync\<close> does with the scratch file: it returns, or it throws (the
  directory of the path does not exist, as for an id with a \<open>/\<close> in it, the name is too
  long, the disk is full). The file system decides, so it is given with each call.
  Reading the file back and removing it are taken to succeed on a file that was written
  (a read that throws is inside the \<open>try\<close> and ends like a rejected \<open>fetch\<close>).
\<close>

datatype fsWrite = Written | Throws

definition writeFileSync ::
  "fsWrite \<Rightarrow> path \<Rightarrow> buffer \<Rightarrow> (path \<rightharpoonup> buffer) \<Rightarrow> error + (path \<rightharpoonup> buffer)" where
  "writeFileSync w p data fs =
     (case w of Written \<Rightarrow> Inr (fs(p \<mapsto> data)) | Throws \<Rightarrow> Inl WriteError)"

text \<open>
  The synchronous part of \<open>finalizeAndTranscribe\<close>, up to the first \<open>await\<close>: the session
  is taken out of the map, an empty audio list ends the call, otherwise the chunks are
  concatenated into the scratch file, read back, and sent. The write is before the
  \<open>try\<close>: when it throws, the session is gone, nothing is sent and the call is rejected
  (the second component; no caller awaits it).
\<close>

definition finalizeAndTranscribe ::
  "int \<Rightarrow> fsWrite \<Rightarrow> string \<Rightarrow> server \<Rightarrow> server \<times> (error + unit)" where
  "finalizeAndTranscribe clock w sid srv =
     (case sessions srv sid of
        None \<Rightarrow> (srv, Inr ())
      | Some session \<Rightarrow>
          let srv1 = srv\<lparr>sessions := (sessions srv)(sid := None)\<rparr>
          in if audio session = []
             then (srv1\<lparr>console := console srv1 @ [LogNoAudio sid]\<rparr>, Inr ())
             else
               let tmp = (sid, clock);
                   data = concat (audio session)
               in case writeFileSync w tmp data (files srv1) of
                    Inl err \<Rightarrow> (srv1, Inl err)
                  | Inr fs \<Rightarrow>
                      (srv1\<lparr>files := fs,
                            inflight := inflight srv1 @
                              [\<lparr>jobId = sid, tmpFile = tmp, jobRate = sampleRate session,
                                fileData = data\<rparr>]\<rparr>, Inr ()))"

text \<open>
  What comes back from the provider: \<open>fetch\<close> rejects, \<open>resp.json()\<close> rejects, or a body
  is parsed. The code never reads the status of the response: \<open>Parsed\<close> is a body
  that came with a success status, \<open>Refused\<close> one that came with the given error status.
\<close>

datatype outcome = FetchRejected | JsonRejected | Parsed json | Refused nat json

text \<open>The \<open>try\<close> block after the request was sent.\<close>

definition store :: "int \<Rightarrow> json \<Rightarrow> job \<Rightarrow> server \<Rightarrow> server" where
  "store clock body j srv =
     (let transcript = extractTranscript body
      in srv\<lparr>console := console srv @ [LogTranscript (jobId j) transcript],
              transcripts := (transcripts srv)(jobId j \<mapsto> transcript),
              timers := timers srv @ [(clock + 5000, jobId j)]\<rparr>)"

definition tryBlock :: "int \<Rightarrow> outcome \<Rightarrow> job \<Rightarrow> server \<Rightarrow> error + server" where
  "tryBlock clock out j srv =
     (case out of
        FetchRejected \<Rightarrow> Inl FetchError
      | JsonRejected \<Rightarrow> Inl ParseError
      | Parsed body \<Rightarrow> Inr (store clock body j srv)
      | Refused status body \<Rightarrow> Inr (store clock body j srv))"

definition unlinkSync :: "path \<Rightarrow> (path \<rightharpoonup> buffer) \<Rightarrow> error + (path \<rightharpoonup> buffer)" where
  "unlinkSync p fs = (if fs p = None then Inl ENOENT else Inr (fs(p := None)))"

text \<open>
  The rest of \<open>finalizeAndTranscribe\<close>, run when the provider's answer arrives at \<open>clock\<close>:
  \<open>try\<close>, \<open>catch\<close> (log only), \<open>finally\<close> (unlink inside its own \<open>try\<close> with an empty
  \<open>catch\<close>). The second component is how the promise of the call settles.
\<close>

definition settle :: "int \<Rightarrow> outcome \<Rightarrow> job \<Rightarrow> server \<Rightarrow> server \<times> (error + unit)" where
  "settle clock out j srv =
     (let srv1 = (case tryBlock clock out j srv of
                    Inr s \<Rightarrow> s
                  | Inl err \<Rightarrow> srv\<lparr>console := console srv @ [LogDeepgramError (jobId j)]\<rparr>);
          srv2 = (case unlinkSync (tmpFile j) (files srv1) of
                    Inr fs \<Rightarrow> srv1\<lparr>files := fs\<rparr>
                  | Inl err \<Rightarrow> srv1)
      in (srv2, Inr ()))"

text \<open>The callbacks \<open>() => transcripts.delete(id)\<close> that are due at \<open>clock\<close> run and are gone.\<close>

definition runTimers :: "int \<Rightarrow> server \<Rightarrow> server" where
  "runTimers clock srv =
     srv\<lparr>transcripts :=
           foldl (\<lambda>m tid. m(snd tid := None)) (transcripts srv)
             (filter (\<lambda>tid. fst tid \<le> clock) (timers srv)),
         timers := filter (\<lambda>tid. \<not> fst tid \<le> clock) (timers srv)\<rparr>"

section \<open>Endpoints\<close>

definition newSession :: "int \<Rightarrow> jsnum \<Rightarrow> session" where
  "newSession clock rate =
     \<lparr>audio = [], lastHeard = clock, startedTalking = False, rmsActiveTime = Fin 0,
      sampleRate = rate\<rparr>"

text \<open>
  Lines 65 to 80 of the stream handler on the session object. \<open>rate\<close> is the rate of
  this request (\<open>parseInt\<close> of the query, NaN when it is not a number), not the session's.
  Line 73 is double arithmetic, and the test against 2000 depends on its rounding: each
  of its four operations is rounded.
\<close>

definition ingest :: "int \<Rightarrow> jsnum \<Rightarrow> buffer \<Rightarrow> session \<Rightarrow> session" where
  "ingest now rate chunk session =
     (if js_gt (calcRMS chunk) (Fin 0.02) then
        session\<lparr>lastHeard := now,
                audio := audio session @ [chunk],
                startedTalking := True,
                rmsActiveTime :=
                  fl (js_add (rmsActiveTime session)
                    (fl (js_mul
                       (fl (js_div (Fin (real (length chunk))) (fl (js_mul rate (Fin 2)))))
                       (Fin 1000))))\<rparr>
      else if \<not> startedTalking session \<or> js_lt (rmsActiveTime session) (Fin 2000) then
        session\<lparr>audio := audio session @ [chunk], lastHeard := now\<rparr>
      else session)"

text \<open>
  \<open>session.startedTalking && now - session.lastHeard > SILENCE_MS\<close>, for a \<open>SILENCE_MS\<close>
  that is a number (with one that is not, the comparison is false in every request).
\<close>

definition silenceTimeout :: "int \<Rightarrow> int \<Rightarrow> session \<Rightarrow> bool" where
  "silenceTimeout silence now session =
     (startedTalking session \<and> now - lastHeard session > silence)"

text \<open>
  The body of a request as the raw-body middleware leaves it: a buffer when the request
  was \<open>application/octet-stream\<close>, otherwise not a buffer, and \<open>Buffer.from\<close> throws.
\<close>

datatype body = Raw buffer | Unparsed

record reply =
  ok :: bool
  rms :: jsnum

text \<open>
  \<open>app.post('/stream')\<close>. \<open>silence\<close> is \<open>SILENCE_MS\<close>; \<open>clock0\<close>, \<open>now\<close> and \<open>clock2\<close> are
  the readings of \<open>Date.now()\<close> at the creation of the session, in the handler, and in
  \<open>finalizeAndTranscribe\<close>, and \<open>w\<close> is what the write of the scratch file does there.
  The handler does not await the finalization.
\<close>

definition postStream ::
  "int \<Rightarrow> int \<Rightarrow> int \<Rightarrow> int \<Rightarrow> fsWrite \<Rightarrow> string option \<Rightarrow> jsnum \<Rightarrow> body \<Rightarrow> server
     \<Rightarrow> server \<times> (error + reply)" where
  "postStream silence clock0 now clock2 w q rate b srv =
     (let sid = queryId q;
          session0 = (case sessions srv sid of
                        None \<Rightarrow> newSession clock0 rate
                      | Some s \<Rightarrow> s);
          srv1 = srv\<lparr>sessions := (sessions srv)(sid \<mapsto> session0)\<rparr>
      in case b of
           Unparsed \<Rightarrow> (srv1, Inl TypeError)
         | Raw chunk \<Rightarrow>
             let session1 = ingest now rate chunk session0;
                 srv2 = srv\<lparr>sessions := (sessions srv)(sid \<mapsto> session1)\<rparr>;
                 srv3 = (if silenceTimeout silence now session1
                         then fst (finalizeAndTranscribe clock2 w sid
                                     (srv2\<lparr>console := console srv2 @ [LogSilence sid]\<rparr>))
                         else srv2)
             in (srv3, Inr \<lparr>ok = True, rms = calcRMS chunk\<rparr>))"

record transcriptReply =
  transcript :: json
  ready :: bool

text \<open>\<open>app.get('/transcript')\<close>\<close>

definition getTranscript :: "string option \<Rightarrow> server \<Rightarrow> transcriptReply" where
  "getTranscript q srv =
     (let sid = queryId q;
          t = transcripts srv sid
      in case t of
           None \<Rightarrow> \<lparr>transcript = JStr [], ready = False\<rparr>
         | Some v \<Rightarrow>
             if \<not> truthy t then \<lparr>transcript = JStr [], ready = False\<rparr>
             else \<lparr>transcript = v, ready = True\<rparr>)"

datatype httpReply = Status404 string | Sent string

text \<open>\<open>app.get('/finalize')\<close>\<close>

definition getFinalize ::
  "int \<Rightarrow> fsWrite \<Rightarrow> string option \<Rightarrow> server \<Rightarrow> server \<times> httpReply" where
  "getFinalize clock w q srv =
     (let sid = queryId q
      in if sessions srv sid = None then (srv, Status404 ''No active session'')
         else (fst (finalizeAndTranscribe clock w sid srv), Sent ''Finalizing...''))"

section \<open>The process as a sequence of events\<close>

text \<open>
  One event of the single-threaded process: a request, or the answer of the provider to
  the \<open>k\<close>-th suspended finalize call. Every event carries the clock reading at which it
  runs (a stream request carries its three), and the timers that are due by then have
  run before it. A request that can finalize carries what the write of the scratch file
  does.
\<close>

datatype event =
    PostStream int int int fsWrite "string option" jsnum body
  | GetTranscript int "string option"
  | GetFinalize int fsWrite "string option"
  | ProviderSettles int nat outcome

text \<open>\<open>silence\<close> is \<open>SILENCE_MS\<close>, read from the environment when the process starts.\<close>

fun exec :: "int \<Rightarrow> server \<Rightarrow> event \<Rightarrow> server" where
  "exec silence srv (PostStream clock0 now clock2 w q rate b) =
     fst (postStream silence clock0 now clock2 w q rate b (runTimers clock0 srv))"
| "exec silence srv (GetTranscript clock q) = runTimers clock srv"
| "exec silence srv (GetFinalize clock w q) =
     fst (getFinalize clock w q (runTimers clock srv))"
| "exec silence srv (ProviderSettles clock k out) =
     (let srv1 = runTimers clock srv
      in if k < length (inflight srv1)
         then fst (settle clock out (inflight srv1 ! k)
                     (srv1\<lparr>inflight := take k (inflight srv1) @ drop (Suc k) (inflight srv1)\<rparr>))
         else srv1)"

definition run :: "int \<Rightarrow> event list \<Rightarrow> server" where
  "run silence evs = foldl (exec silence) emptyServer evs"

section \<open>Observations used in the properties\<close>


text \<open>The session object of a stream request when the handler reaches the timeout check.\<close>

definition touched :: "int \<Rightarrow> int \<Rightarrow> string option \<Rightarrow> jsnum \<Rightarrow> buffer \<Rightarrow> server \<Rightarrow> session" where
  "touched clock0 now q rate chunk srv =
     ingest now rate chunk
       (case sessions srv (queryId q) of None \<Rightarrow> newSession clock0 rate | Some s \<Rightarrow> s)"


text \<open>The chunks of one session object, each with the handler's \<open>now\<close> and the request's rate.\<close>

fun ingestAll :: "(int \<times> jsnum \<times> buffer) list \<Rightarrow> session \<Rightarrow> session" where
  "ingestAll [] session = session"
| "ingestAll ((now, rate, chunk) # cs) session = ingestAll cs (ingest now rate chunk session)"

fun anyLoud :: "(int \<times> jsnum \<times> buffer) list \<Rightarrow> bool" where
  "anyLoud [] = False"
| "anyLoud ((now, rate, chunk) # cs) = (js_gt (calcRMS chunk) (Fin 0.02) \<or> anyLoud cs)"

text \<open>A stream request whose body the middleware parsed into a buffer; any other event.\<close>

fun parsedBody :: "event \<Rightarrow> bool" where
  "parsedBody (PostStream clock0 now clock2 w q rate Unparsed) = False"
| "parsedBody _ = True"

text \<open>What a read of the transcript answers at \<open>clock\<close>, after the timers due by then.\<close>

definition transcriptAt :: "int \<Rightarrow> string option \<Rightarrow> server \<Rightarrow> transcriptReply" where
  "transcriptAt clock q srv = getTranscript q (runTimers clock srv)"

text \<open>A body of the provider's shape: one channel with the given alternatives.\<close>

definition replyWith :: "json list \<Rightarrow> json" where
  "replyWith alternatives =
     JObj [(''results'', JObj [(''channels'', JArr [JObj [(''alternatives'', JArr alternatives)]])])]"

text \<open>
  Every session in the map holds at least one chunk, and no finalization has ended at
  the empty-audio return.
\<close>

definition audioKept :: "server \<Rightarrow> bool" where
  "audioKept srv =
     ((\<forall>sid session. sessions srv sid = Some session \<longrightarrow> audio session \<noteq> []) \<and>
      (\<forall>sid. LogNoAudio sid \<notin> set (console srv)))"


text \<open>
  The loudness in the words of the specification: the root of the mean of the squares of
  the first \<open>n\<close> 16-bit little-endian samples of the buffer, each scaled by 32768.
\<close>

definition sample :: "buffer \<Rightarrow> nat \<Rightarrow> int" where
  "sample buf i = sint (word_cat (buf ! (2 * i + 1)) (buf ! (2 * i)) :: 16 word)"

definition rootMeanSquare :: "buffer \<Rightarrow> nat \<Rightarrow> jsnum" where
  "rootMeanSquare buf n =
     (if n = 0 then NaN
      else Fin (sqrt ((\<Sum>i<n. (real_of_int (sample buf i) / 32768)\<^sup>2) / real n)))"

section \<open>Properties of the numbers\<close>

lemmas double_eval =
  js_mul_def js_div_def js_add_def signed_def signedInf_def fl_def round64_def
  exponent_def twoTo_def nearestEven_def Let_def compute_bitlen

lemma js_div_nonneg: "0 \<le> a \<Longrightarrow> 0 < b \<Longrightarrow> js_div (Fin a) (Fin b) = Fin (a / b)"
  by (simp add: js_div_def signed_def)

lemma js_div_no_samples: "js_div (Fin 0) (Fin 0) = NaN"
  by (simp add: js_div_def)

text \<open>
  Line 73 for one loud chunk of two bytes at 16000 Hz on a new session: 1/16 ms.
\<close>

lemma active_two_bytes_16000:
  "fl (js_add (Fin 0)
     (fl (js_mul (fl (js_div (Fin 2) (fl (js_mul (Fin 16000) (Fin 2))))) (Fin 1000)))) =
   Fin (1 / 16)"
  by (simp add: double_eval)

text \<open>
  The rounding is the one of the code. Two bytes at a rate of 3 are 333.3333333333333 ms,
  and six of them add up to the double below 2000, where the exact sum is 2000; 191999
  bytes at 48000 followed by 1000000 bytes at 48000000001 add up to the double 2000,
  where the exact sum is below.
\<close>

lemma active_two_bytes_3:
  "fl (js_mul (fl (js_div (Fin 2) (fl (js_mul (Fin 3) (Fin 2))))) (Fin 1000)) =
   Fin (5864062014805333 / 2 ^ 44)"
  by (simp add: double_eval)

lemma six_thirds_below_2000:
  "fl (js_add (fl (js_add (fl (js_add (fl (js_add (fl (js_add (fl (js_add (Fin 0)
     (Fin (5864062014805333 / 2 ^ 44)))) (Fin (5864062014805333 / 2 ^ 44))))
     (Fin (5864062014805333 / 2 ^ 44)))) (Fin (5864062014805333 / 2 ^ 44))))
     (Fin (5864062014805333 / 2 ^ 44)))) (Fin (5864062014805333 / 2 ^ 44))) =
   Fin (2000 - 1 / 2 ^ 42)"
  by (simp add: double_eval)

lemma rounded_up_to_2000:
  "fl (js_add
     (fl (js_add (Fin 0)
        (fl (js_mul (fl (js_div (Fin 191999) (fl (js_mul (Fin 48000) (Fin 2))))) (Fin 1000)))))
     (fl (js_mul (fl (js_div (Fin 1000000) (fl (js_mul (Fin 48000000001) (Fin 2)))))
        (Fin 1000)))) =
   Fin 2000"
  by (simp add: double_eval)

lemma zero_rates:
  "fl (js_div (Fin 2) (fl (js_mul (Fin 0) (Fin 2)))) = PosInf"
  "fl (js_div (Fin 2) (fl (js_mul NegZero (Fin 2)))) = NegInf"
  "fl (js_div (Fin 2) (fl (js_mul NaN (Fin 2)))) = NaN"
  by (simp_all add: double_eval)

section \<open>Properties of the activity detector\<close>

lemma int16Array_samples: "int16Array buf = map (sample buf) [0..<length buf div 2]"
proof (induction buf rule: int16Array.induct)
  case (1 lo hi rest)
  have "map (sample (lo # hi # rest)) [0..<Suc (length rest div 2)] =
        sample (lo # hi # rest) 0 # map (\<lambda>i. sample (lo # hi # rest) (Suc i)) [0..<length rest div 2]"
    by (rule map_upt_Suc)
  moreover have "sample (lo # hi # rest) (Suc i) = sample rest i" for i
    by (simp add: sample_def)
  moreover have "sample (lo # hi # rest) 0 = sint (word_cat hi lo :: 16 word)"
    by (simp add: sample_def)
  ultimately show ?case using 1 by simp
qed simp_all

lemma int16_range: "x \<in> set (int16Array buf) \<Longrightarrow> - 32768 \<le> x \<and> x < 32768"
proof (induction buf rule: int16Array.induct)
  case (1 lo hi rest)
  have "- 32768 \<le> sint (word_cat hi lo :: 16 word)"
    using sint_ge [of "word_cat hi lo :: 16 word"] by simp
  moreover have "sint (word_cat hi lo :: 16 word) < 32768"
    using sint_lt [of "word_cat hi lo :: 16 word"] by simp
  ultimately show ?case using 1 by auto
qed simp_all

lemma foldl_sq_shift:
  "foldl (\<lambda>acc x. acc + (real_of_int x / 32768) * (real_of_int x / 32768)) a xs =
   a + foldl (\<lambda>acc x. acc + (real_of_int x / 32768) * (real_of_int x / 32768)) 0 xs"
proof (induction xs arbitrary: a)
  case Nil
  show ?case by simp
next
  case (Cons x xs)
  show ?case
    using Cons [of "a + (real_of_int x / 32768) * (real_of_int x / 32768)"]
      Cons [of "0 + (real_of_int x / 32768) * (real_of_int x / 32768)"]
    by simp
qed

lemma sumSq_Nil: "sumSq [] = 0"
  by (simp add: sumSq_def)

lemma sumSq_Cons: "sumSq (x # xs) = (real_of_int x / 32768) * (real_of_int x / 32768) + sumSq xs"
  unfolding sumSq_def using foldl_sq_shift [of "0 + (real_of_int x / 32768) * (real_of_int x / 32768)" xs]
  by simp

lemma sample_sq_bounds:
  assumes "- 32768 \<le> x" and "x < 32768"
  shows "0 \<le> (real_of_int x / 32768) * (real_of_int x / 32768)"
    and "(real_of_int x / 32768) * (real_of_int x / 32768) \<le> 1"
proof -
  let ?s = "real_of_int x / 32768"
  have lo: "- 1 \<le> ?s" using assms by simp
  have hi: "?s \<le> 1" using assms by simp
  show "0 \<le> ?s * ?s" by simp
  have "\<bar>?s\<bar> \<le> 1" using lo hi by (simp add: abs_le_iff)
  then have "\<bar>?s\<bar> * \<bar>?s\<bar> \<le> 1 * 1"
    by (intro mult_mono) simp_all
  then show "?s * ?s \<le> 1" by simp
qed

lemma sumSq_bounds:
  "(\<And>x. x \<in> set xs \<Longrightarrow> - 32768 \<le> x \<and> x < 32768) \<Longrightarrow> 0 \<le> sumSq xs \<and> sumSq xs \<le> real (length xs)"
proof (induction xs)
  case Nil
  show ?case by (simp add: sumSq_Nil)
next
  case (Cons x xs)
  have ih: "0 \<le> sumSq xs \<and> sumSq xs \<le> real (length xs)"
    using Cons by simp
  have b: "- 32768 \<le> x" "x < 32768" using Cons.prems [of x] by simp_all
  show ?case
    using ih sample_sq_bounds [OF b] by (simp add: sumSq_Cons)
qed

lemma calcRMS_no_samples: "int16Array buf = [] \<Longrightarrow> calcRMS buf = NaN"
  by (simp add: calcRMS_def sumSq_Nil js_div_no_samples)

lemma calcRMS_some_samples:
  "int16Array buf \<noteq> [] \<Longrightarrow>
     calcRMS buf = Fin (sqrt (sumSq (int16Array buf) / real (length (int16Array buf))))"
proof -
  assume ne: "int16Array buf \<noteq> []"
  have "0 \<le> sumSq (int16Array buf)"
    using sumSq_bounds [of "int16Array buf"] int16_range by blast
  then have nn: "\<not> sumSq (int16Array buf) / real (length (int16Array buf)) < 0"
    by (simp add: not_less)
  have "js_div (Fin (sumSq (int16Array buf))) (Fin (real (length (int16Array buf)))) =
      Fin (sumSq (int16Array buf) / real (length (int16Array buf)))"
    using \<open>0 \<le> sumSq (int16Array buf)\<close> ne by (intro js_div_nonneg) simp_all
  then show ?thesis using nn by (simp add: calcRMS_def Let_def)
qed

lemma calcRMS_range:
  assumes "int16Array buf \<noteq> []"
  shows "\<exists>r. calcRMS buf = Fin r \<and> 0 \<le> r \<and> r \<le> 1"
proof -
  let ?xs = "int16Array buf"
  have b: "0 \<le> sumSq ?xs \<and> sumSq ?xs \<le> real (length ?xs)"
    using sumSq_bounds [of ?xs] int16_range by blast
  have n: "0 < real (length ?xs)" using assms by simp
  have "sumSq ?xs / real (length ?xs) \<le> 1" using b n by simp
  moreover have "0 \<le> sumSq ?xs / real (length ?xs)" using b by simp
  ultimately show ?thesis
    using calcRMS_some_samples [OF assms] by simp
qed

lemma int16Array_butlast: "odd (length buf) \<Longrightarrow> int16Array (butlast buf) = int16Array buf"
proof (induction buf rule: int16Array.induct)
  case (1 lo hi rest)
  then have "odd (length rest)" by simp
  then have "rest \<noteq> []" by auto
  then show ?case using 1 by simp
qed simp_all

lemma int16Array_zeros: "set buf \<subseteq> {0} \<Longrightarrow> set (int16Array buf) \<subseteq> {0}"
  by (induction buf rule: int16Array.induct) (simp_all add: word_cat_eq)

lemma sumSq_zeros: "set xs \<subseteq> {0} \<Longrightarrow> sumSq xs = 0"
  by (induction xs) (simp_all add: sumSq_Nil sumSq_Cons)

text \<open>
  With at least one complete sample the loudness is a number between 0 and 1, and it
  is 0 when every byte is 0.
\<close>

lemma calcRMS_zeros: "int16Array buf \<noteq> [] \<Longrightarrow> set buf \<subseteq> {0} \<Longrightarrow> calcRMS buf = Fin 0"
  using sumSq_zeros [OF int16Array_zeros, of buf] by (simp add: calcRMS_some_samples)

lemma postStream_reply:
  "snd (postStream silence clock0 now clock2 w q rate (Raw chunk) srv) =
     Inr \<lparr>ok = True, rms = calcRMS chunk\<rparr>"
  by (simp add: postStream_def Let_def)

lemma calcRMS_full_scale: "calcRMS [0, 128] = Fin 1"
  by (simp add: calcRMS_def sumSq_def word_cat_eq js_div_nonneg)

lemma calcRMS_silent: "calcRMS [0, 0] = Fin 0"
  by (simp add: calcRMS_def sumSq_def word_cat_eq js_div_nonneg)

lemma sqrt_quarter: "sqrt (1 / 4) = 1 / 2"
  by (rule real_sqrt_unique) (simp_all add: power2_eq_square)

lemma calcRMS_half_scale: "calcRMS [0, 64] = Fin (1 / 2)"
  by (simp add: calcRMS_def sumSq_def word_cat_eq js_div_nonneg sqrt_quarter)

lemma sumSq_sum: "sumSq xs = (\<Sum>i<length xs. (real_of_int (xs ! i) / 32768)\<^sup>2)"
proof (induction xs)
  case Nil
  show ?case by (simp add: sumSq_Nil)
next
  case (Cons x xs)
  have "(\<Sum>i<Suc (length xs). (real_of_int ((x # xs) ! i) / 32768)\<^sup>2) =
        (real_of_int x / 32768)\<^sup>2 + (\<Sum>i<length xs. (real_of_int (xs ! i) / 32768)\<^sup>2)"
    by (simp add: sum.lessThan_Suc_shift del: sum.lessThan_Suc)
  then show ?case using Cons by (simp add: sumSq_Cons power2_eq_square)
qed

text \<open>
  The loop of \<open>calcRMS\<close> computes the root mean square of the complete samples of the
  buffer, whatever its length.
\<close>

lemma calcRMS_rootMeanSquare: "calcRMS buf = rootMeanSquare buf (length buf div 2)"
proof (cases "int16Array buf = []")
  case True
  then have "length buf div 2 = 0"
    using int16Array_samples [of buf] by simp
  then show ?thesis using True by (simp add: calcRMS_no_samples rootMeanSquare_def)
next
  case False
  have len: "length (int16Array buf) = length buf div 2"
    using int16Array_samples [of buf] by (metis diff_zero length_map length_upt)
  have nth: "int16Array buf ! i = sample buf i" if "i < length buf div 2" for i
    using int16Array_samples [of buf] that by (metis add.left_neutral diff_zero nth_map_upt)
  have "sumSq (int16Array buf) = (\<Sum>i<length buf div 2. (real_of_int (sample buf i) / 32768)\<^sup>2)"
    unfolding sumSq_sum len by (rule sum.cong) (simp_all add: nth)
  moreover have "0 < length buf div 2"
    using False len by (metis length_greater_0_conv)
  ultimately show ?thesis
    using False len by (simp add: calcRMS_some_samples rootMeanSquare_def)
qed

lemma rootMeanSquare_butlast:
  "n \<le> (length buf - 1) div 2 \<Longrightarrow> rootMeanSquare (butlast buf) n = rootMeanSquare buf n"
proof -
  assume n: "n \<le> (length buf - 1) div 2"
  have "sample (butlast buf) i = sample buf i" if "i < n" for i
  proof -
    have "2 * i + 1 < length buf - 1" using that n by linarith
    then show ?thesis by (simp add: sample_def nth_butlast)
  qed
  then show ?thesis by (simp add: rootMeanSquare_def)
qed


text \<open>
  C8: for a chunk with an odd number of bytes the detector takes the complete 16-bit
  little-endian samples before the last byte and returns their root mean square (NaN
  when there is none), which is the loudness of the chunk without its last byte; the
  stream handler answers such a chunk with \<open>ok\<close> and that loudness, not with an error.
\<close>

theorem odd_chunk_truncated:
  "odd (length chunk) \<Longrightarrow>
     int16Array chunk = map (sample chunk) [0..<(length chunk - 1) div 2] \<and>
     calcRMS chunk = rootMeanSquare chunk ((length chunk - 1) div 2) \<and>
     calcRMS chunk = rootMeanSquare (butlast chunk) ((length chunk - 1) div 2) \<and>
     calcRMS chunk = calcRMS (butlast chunk) \<and>
     snd (postStream silence clock0 now clock2 w q rate (Raw chunk) srv) =
       Inr \<lparr>ok = True, rms = rootMeanSquare chunk ((length chunk - 1) div 2)\<rparr>"
proof -
  assume odd: "odd (length chunk)"
  then have n: "(length chunk - 1) div 2 = length chunk div 2"
    by presburger
  have one: "int16Array chunk = map (sample chunk) [0..<(length chunk - 1) div 2]"
    unfolding n by (rule int16Array_samples)
  have two: "calcRMS chunk = rootMeanSquare chunk ((length chunk - 1) div 2)"
    unfolding n by (rule calcRMS_rootMeanSquare)
  have three: "rootMeanSquare (butlast chunk) ((length chunk - 1) div 2) =
      rootMeanSquare chunk ((length chunk - 1) div 2)"
    by (rule rootMeanSquare_butlast) simp
  have four: "calcRMS chunk = calcRMS (butlast chunk)"
    using odd by (simp add: int16Array_butlast calcRMS_def)
  show ?thesis using one two three four by (simp add: postStream_reply)
qed

theorem odd_chunk_truncated_witness:
  "odd (length [0, 64, 7 :: byte]) \<and>
   int16Array [0, 64, 7] = [16384] \<and>
   rootMeanSquare [0, 64, 7] 1 = Fin (1 / 2) \<and>
   calcRMS [0, 64, 7] = Fin (1 / 2) \<and>
   snd (postStream 1200 0 0 0 Written (Some ''s1'') (Fin 16000) (Raw [0, 64, 7]) emptyServer) =
     Inr \<lparr>ok = True, rms = Fin (1 / 2)\<rparr>"
proof -
  have r: "rootMeanSquare [0, 64, 7] 1 = Fin (1 / 2)"
    by (simp add: rootMeanSquare_def sample_def word_cat_eq sqrt_quarter)
  show ?thesis
    using r odd_chunk_truncated [of "[0, 64, 7]" 1200 0 0 0 Written "Some ''s1''" "Fin 16000"
        emptyServer]
    by (simp add: sample_def word_cat_eq)
qed

text \<open>
  C9: the loudness of a buffer of complete samples is claimed to lie in [0, 1], the empty
  buffer included. For the empty buffer the detector divides 0 by 0: the loudness is
  NaN, which is neither at least 0 nor at most 1, and the handler sends it back.
\<close>

theorem empty_chunk_loudness_NaN:
  "calcRMS [] = NaN \<and>
   \<not> (js_le (Fin 0) (calcRMS []) \<and> js_le (calcRMS []) (Fin 1)) \<and>
   snd (postStream 1200 0 0 0 Written (Some ''s1'') (Fin 16000) (Raw []) emptyServer) =
     Inr \<lparr>ok = True, rms = NaN\<rparr>"
  by (simp add: calcRMS_no_samples postStream_reply)

section \<open>Properties of the stream handler\<close>

lemma js_le_not_gt: "js_le a b \<Longrightarrow> \<not> js_gt a b"
  by (cases a; cases b) (simp_all add: js_gt_def)


lemma ingest_quiet:
  "\<not> js_gt (calcRMS chunk) (Fin 0.02) \<Longrightarrow>
     ingest now rate chunk session =
       (if \<not> startedTalking session \<or> js_lt (rmsActiveTime session) (Fin 2000)
        then session\<lparr>audio := audio session @ [chunk], lastHeard := now\<rparr>
        else session)"
  unfolding ingest_def by (simp only: if_False)


lemma ingest_sampleRate: "sampleRate (ingest now rate chunk session) = sampleRate session"
  by (simp add: ingest_def)

lemma postStream_touched:
  "fst (postStream silence clock0 now clock2 w q rate (Raw chunk) srv) =
     (let srv2 = srv\<lparr>sessions := (sessions srv)(queryId q \<mapsto> touched clock0 now q rate chunk srv)\<rparr>
      in if silenceTimeout silence now (touched clock0 now q rate chunk srv)
         then fst (finalizeAndTranscribe clock2 w (queryId q)
                     (srv2\<lparr>console := console srv2 @ [LogSilence (queryId q)]\<rparr>))
         else srv2)"
  by (simp add: postStream_def touched_def Let_def)



lemma finalize_removes: "sessions (fst (finalizeAndTranscribe clock w sid srv)) sid = None"
  by (cases w)
    (simp_all add: finalizeAndTranscribe_def writeFileSync_def Let_def split: option.splits)

lemma getFinalize_removes: "sessions (fst (getFinalize clock w q srv)) (queryId q) = None"
  by (simp add: getFinalize_def Let_def finalize_removes)




lemma first_loud_step:
  "fst (postStream 1200 0 0 0 Written (Some ''s1'') (Fin 16000) (Raw [0, 128]) emptyServer) =
     emptyServer\<lparr>sessions := [''s1'' \<mapsto>
       \<lparr>audio = [[0, 128]], lastHeard = 0, startedTalking = True,
        rmsActiveTime = Fin (1 / 16), sampleRate = Fin 16000\<rparr>]\<rparr>"
  by (simp add: postStream_def Let_def queryId_def emptyServer_def newSession_def ingest_def
      calcRMS_full_scale js_gt_def silenceTimeout_def active_two_bytes_16000)



text \<open>
  Six loud chunks of two bytes at a rate of 3: the total of the code is the double below
  2000, so the session is below the warm-up after all six.
\<close>

lemma six_loud_chunks_at_rate_3:
  "ingestAll [(0, Fin 3, [0, 128]), (1, Fin 3, [0, 128]), (2, Fin 3, [0, 128]),
              (3, Fin 3, [0, 128]), (4, Fin 3, [0, 128]), (5, Fin 3, [0, 128])]
     (newSession 0 (Fin 3)) =
   \<lparr>audio = [[0, 128], [0, 128], [0, 128], [0, 128], [0, 128], [0, 128]], lastHeard = 5,
    startedTalking = True, rmsActiveTime = Fin (2000 - 1 / 2 ^ 42), sampleRate = Fin 3\<rparr> \<and>
   js_lt (Fin (2000 - 1 / 2 ^ 42)) (Fin 2000)"
  by (simp add: ingest_def calcRMS_full_scale js_gt_def newSession_def double_eval)

lemma touched_existing:
  "sessions srv (queryId q) = Some session \<Longrightarrow>
     touched clock0 now q rate chunk srv = ingest now rate chunk session"
  by (simp add: touched_def)

text \<open>
  C5: a chunk classified as silence (loudness at most 0.02) arrives for a session
  that exists. If \<open>startedTalking\<close> is false or \<open>rmsActiveTime < 2000\<close>, the
  session object gets the chunk appended and \<open>lastHeard = now\<close>, and nothing else
  changes; otherwise the session object is unchanged in every field. After the request
  the map holds that object under the id, unless the timeout check has handed it to the
  finalizer.
\<close>

theorem silent_chunk_kept_or_discarded:
  assumes "sessions srv (queryId q) = Some session"
    and "js_le (calcRMS chunk) (Fin 0.02)"
  shows "touched clock0 now q rate chunk srv =
           (if \<not> startedTalking session \<or> js_lt (rmsActiveTime session) (Fin 2000)
            then session\<lparr>audio := audio session @ [chunk], lastHeard := now\<rparr>
            else session) \<and>
         sessions (fst (postStream silence clock0 now clock2 w q rate (Raw chunk) srv)) (queryId q) =
           (if silenceTimeout silence now (touched clock0 now q rate chunk srv) then None
            else Some (touched clock0 now q rate chunk srv))"
proof -
  have quiet: "\<not> js_gt (calcRMS chunk) (Fin 0.02)"
    using assms(2) by (rule js_le_not_gt)
  have "touched clock0 now q rate chunk srv = ingest now rate chunk session"
    using assms(1) by (rule touched_existing)
  then have one: "touched clock0 now q rate chunk srv =
           (if \<not> startedTalking session \<or> js_lt (rmsActiveTime session) (Fin 2000)
            then session\<lparr>audio := audio session @ [chunk], lastHeard := now\<rparr>
            else session)"
    using ingest_quiet [OF quiet] by simp
  have two: "sessions (fst (postStream silence clock0 now clock2 w q rate (Raw chunk) srv)) (queryId q) =
           (if silenceTimeout silence now (touched clock0 now q rate chunk srv) then None
            else Some (touched clock0 now q rate chunk srv))"
    by (simp add: postStream_touched Let_def finalize_removes)
  show ?thesis using one two by (rule conjI)
qed

theorem silent_chunk_kept_or_discarded_witness:
  "sessions (emptyServer\<lparr>sessions := [''s1'' \<mapsto> newSession 0 (Fin 16000)]\<rparr>) (queryId (Some ''s1'')) =
      Some (newSession 0 (Fin 16000)) \<and>
   js_le (calcRMS [0, 0]) (Fin 0.02) \<and>
   touched 5 7 (Some ''s1'') (Fin 16000) [0, 0]
      (emptyServer\<lparr>sessions := [''s1'' \<mapsto> newSession 0 (Fin 16000)]\<rparr>) =
     \<lparr>audio = [[0, 0]], lastHeard = 7, startedTalking = False, rmsActiveTime = Fin 0,
      sampleRate = Fin 16000\<rparr> \<and>
   sessions (emptyServer\<lparr>sessions := [''s1'' \<mapsto> 
        \<lparr>audio = [[0, 128]], lastHeard = 0, startedTalking = True,
        rmsActiveTime = Fin 2500, sampleRate = Fin 16000\<rparr>]\<rparr>) (queryId (Some ''s1'')) =
      Some \<lparr>audio = [[0, 128]], lastHeard = 0, startedTalking = True,
        rmsActiveTime = Fin 2500, sampleRate = Fin 16000\<rparr> \<and>
   touched 5 7 (Some ''s1'') (Fin 8000) [0, 0]
      (emptyServer\<lparr>sessions := [''s1'' \<mapsto> 
        \<lparr>audio = [[0, 128]], lastHeard = 0, startedTalking = True,
        rmsActiveTime = Fin 2500, sampleRate = Fin 16000\<rparr>]\<rparr>) =
     \<lparr>audio = [[0, 128]], lastHeard = 0, startedTalking = True,
        rmsActiveTime = Fin 2500, sampleRate = Fin 16000\<rparr>"
proof -
  have h: "js_le (calcRMS [0, 0]) (Fin 0.02)"
    by (simp add: calcRMS_silent)
  have a: "sessions (emptyServer\<lparr>sessions := [''s1'' \<mapsto> newSession 0 (Fin 16000)]\<rparr>) (queryId (Some ''s1'')) =
      Some (newSession 0 (Fin 16000))"
    by (simp add: queryId_def)
  have b: "sessions (emptyServer\<lparr>sessions := [''s1'' \<mapsto> 
        \<lparr>audio = [[0, 128]], lastHeard = 0, startedTalking = True,
        rmsActiveTime = Fin 2500, sampleRate = Fin 16000\<rparr>]\<rparr>) (queryId (Some ''s1'')) =
      Some \<lparr>audio = [[0, 128]], lastHeard = 0, startedTalking = True,
        rmsActiveTime = Fin 2500, sampleRate = Fin 16000\<rparr>"
    by (simp add: queryId_def)
  show ?thesis
    using h a b silent_chunk_kept_or_discarded [OF a h, of 5 7 "Fin 16000" 1200 9 Written]
      silent_chunk_kept_or_discarded [OF b h, of 5 7 "Fin 8000" 1200 9 Written]
    by (simp add: newSession_def)
qed

lemma ingestAll_started:
  "startedTalking (ingestAll cs session) = (startedTalking session \<or> anyLoud cs)"
proof (induction cs arbitrary: session)
  case Nil
  show ?case by simp
next
  case (Cons c cs)
  obtain now rate chunk where c: "c = (now, rate, chunk)" by (cases c) auto
  have "startedTalking (ingest now rate chunk session) =
          (startedTalking session \<or> js_gt (calcRMS chunk) (Fin 0.02))"
    by (simp add: ingest_def)
  then show ?case using Cons [of "ingest now rate chunk session"] c by auto
qed

lemma ingest_active_started:
  "rmsActiveTime session = Fin 0 \<or> startedTalking session \<Longrightarrow>
     rmsActiveTime (ingest now rate chunk session) = Fin 0 \<or>
     startedTalking (ingest now rate chunk session)"
  by (auto simp: ingest_def)

lemma ingestAll_active_started:
  "rmsActiveTime session = Fin 0 \<or> startedTalking session \<Longrightarrow>
     rmsActiveTime (ingestAll cs session) = Fin 0 \<or> startedTalking (ingestAll cs session)"
proof (induction cs arbitrary: session)
  case Nil
  then show ?case by simp
next
  case (Cons c cs)
  obtain now rate chunk where c: "c = (now, rate, chunk)" by (cases c) auto
  show ?case
    using Cons.IH [OF ingest_active_started [OF Cons.prems, of now rate chunk]] c by simp
qed

text \<open>
  C3, as amended: for a session and any sequence of chunks ingested since its
  creation, \<open>startedTalking\<close> is true if and only if one of the chunks was
  classified loud; so it is true whenever \<open>rmsActiveTime\<close> is at or above 2000, and
  it can be true below.
\<close>

theorem startedTalking_iff_some_loud_chunk:
  "startedTalking (ingestAll cs (newSession clock0 rate0)) = anyLoud cs \<and>
   (js_le (Fin 2000) (rmsActiveTime (ingestAll cs (newSession clock0 rate0))) \<longrightarrow>
      startedTalking (ingestAll cs (newSession clock0 rate0)))"
proof -
  have a: "startedTalking (ingestAll cs (newSession clock0 rate0)) = anyLoud cs"
    by (simp add: ingestAll_started newSession_def)
  have "rmsActiveTime (newSession clock0 rate0) = Fin 0 \<or> startedTalking (newSession clock0 rate0)"
    by (simp add: newSession_def)
  then have "rmsActiveTime (ingestAll cs (newSession clock0 rate0)) = Fin 0 \<or>
      startedTalking (ingestAll cs (newSession clock0 rate0))"
    by (rule ingestAll_active_started)
  then have b: "js_le (Fin 2000) (rmsActiveTime (ingestAll cs (newSession clock0 rate0))) \<longrightarrow>
      startedTalking (ingestAll cs (newSession clock0 rate0))"
    by auto
  show ?thesis using a b by (rule conjI)
qed

theorem startedTalking_iff_some_loud_chunk_witness:
  "startedTalking (ingestAll [(0, Fin 16000, [0, 0]), (20, Fin 16000, [0, 128])]
      (newSession 0 (Fin 16000))) \<and>
   anyLoud [(0, Fin 16000, [0, 0]), (20, Fin 16000, [0, 128])] \<and>
   \<not> js_le (Fin 2000) (rmsActiveTime (ingestAll [(0, Fin 16000, [0, 0]), (20, Fin 16000, [0, 128])]
      (newSession 0 (Fin 16000))))"
  using startedTalking_iff_some_loud_chunk
    [of "[(0, Fin 16000, [0, 0]), (20, Fin 16000, [0, 128])]" 0 "Fin 16000"]
  by (simp add: calcRMS_full_scale calcRMS_silent js_gt_def ingest_def newSession_def
      active_two_bytes_16000)

text \<open>
  C3 as stated fails: after one loud chunk of one sample at 16000 Hz the session has
  \<open>startedTalking = true\<close> with \<open>rmsActiveTime\<close> = 1/16 ms.
\<close>

theorem startedTalking_before_warmup:
  "sessions (fst (postStream 1200 0 0 0 Written (Some ''s1'') (Fin 16000) (Raw [0, 128]) emptyServer)) ''s1'' =
     Some \<lparr>audio = [[0, 128]], lastHeard = 0, startedTalking = True,
           rmsActiveTime = Fin (1 / 16), sampleRate = Fin 16000\<rparr> \<and>
   \<not> js_le (Fin 2000) (Fin (1 / 16)) \<and>
   startedTalking (ingestAll [(0, Fin 16000, [0, 128])] (newSession 0 (Fin 16000))) \<noteq>
     js_le (Fin 2000) (rmsActiveTime (ingestAll [(0, Fin 16000, [0, 128])] (newSession 0 (Fin 16000))))"
  unfolding first_loud_step
  by (simp add: emptyServer_def calcRMS_full_scale js_gt_def ingest_def newSession_def
      active_two_bytes_16000)

section \<open>Properties of finalization\<close>

lemma finalize_absent:
  "sessions srv sid = None \<Longrightarrow> finalizeAndTranscribe clock w sid srv = (srv, Inr ())"
  by (simp add: finalizeAndTranscribe_def)

lemma finalize_written:
  "sessions srv sid = Some session \<Longrightarrow> audio session \<noteq> [] \<Longrightarrow>
     finalizeAndTranscribe clock Written sid srv =
       (srv\<lparr>sessions := (sessions srv)(sid := None),
            files := (files srv)((sid, clock) \<mapsto> concat (audio session)),
            inflight := inflight srv @
              [\<lparr>jobId = sid, tmpFile = (sid, clock), jobRate = sampleRate session,
                fileData = concat (audio session)\<rparr>]\<rparr>, Inr ())"
  by (simp add: finalizeAndTranscribe_def writeFileSync_def Let_def)

lemma finalize_throws:
  "sessions srv sid = Some session \<Longrightarrow> audio session \<noteq> [] \<Longrightarrow>
     finalizeAndTranscribe clock Throws sid srv =
       (srv\<lparr>sessions := (sessions srv)(sid := None)\<rparr>, Inl WriteError)"
  by (simp add: finalizeAndTranscribe_def writeFileSync_def Let_def)

lemma finalize_no_audio:
  "sessions srv sid = Some session \<Longrightarrow> audio session = [] \<Longrightarrow>
     finalizeAndTranscribe clock w sid srv =
       (srv\<lparr>sessions := (sessions srv)(sid := None), console := console srv @ [LogNoAudio sid]\<rparr>,
        Inr ())"
  by (simp add: finalizeAndTranscribe_def Let_def)

lemma getFinalize_absent:
  "sessions srv (queryId q) = None \<Longrightarrow>
     getFinalize clock w q srv = (srv, Status404 ''No active session'')"
  by (simp add: getFinalize_def)

lemma getFinalize_present:
  "sessions srv (queryId q) = Some session \<Longrightarrow>
     getFinalize clock w q srv =
       (fst (finalizeAndTranscribe clock w (queryId q) srv), Sent ''Finalizing...'')"
  by (simp add: getFinalize_def)

lemma settle_failed:
  "out = FetchRejected \<or> out = JsonRejected \<Longrightarrow>
     settle clock out j srv =
       (srv\<lparr>console := console srv @ [LogDeepgramError (jobId j)],
            files := (files srv)(tmpFile j := None)\<rparr>, Inr ())"
  by (auto simp: settle_def tryBlock_def unlinkSync_def Let_def fun_upd_idem)

lemma settle_parsed:
  "settle clock (Parsed body) j srv =
       (srv\<lparr>console := console srv @ [LogTranscript (jobId j) (extractTranscript body)],
            transcripts := (transcripts srv)(jobId j \<mapsto> extractTranscript body),
            timers := timers srv @ [(clock + 5000, jobId j)],
            files := (files srv)(tmpFile j := None)\<rparr>, Inr ())"
  by (auto simp: settle_def tryBlock_def store_def unlinkSync_def Let_def fun_upd_idem)

lemma settle_refused:
  "settle clock (Refused status body) j srv = settle clock (Parsed body) j srv"
  by (simp add: settle_def tryBlock_def)

lemma settle_resolves: "snd (settle clock out j srv) = Inr ()"
  by (simp add: settle_def Let_def)

lemma run_Nil: "run silence [] = emptyServer"
  by (simp add: run_def)

lemma run_snoc: "run silence (evs @ [e]) = exec silence (run silence evs) e"
  by (simp add: run_def)

lemma runTimers_idle: "timers srv = [] \<Longrightarrow> runTimers clock srv = srv"
  by (simp add: runTimers_def)

lemma run_loud_chunk:
  "run 1200 [PostStream 0 0 0 Written (Some ''s1'') (Fin 16000) (Raw [0, 128])] =
     emptyServer\<lparr>sessions := [''s1'' \<mapsto>
       \<lparr>audio = [[0, 128]], lastHeard = 0, startedTalking = True,
        rmsActiveTime = Fin (1 / 16), sampleRate = Fin 16000\<rparr>]\<rparr>"
proof -
  have "runTimers 0 emptyServer = emptyServer"
    by (simp add: runTimers_idle emptyServer_def)
  then show ?thesis
    using run_snoc [of 1200 "[]" "PostStream 0 0 0 Written (Some ''s1'') (Fin 16000) (Raw [0, 128])"]
    by (simp add: run_Nil first_loud_step)
qed

lemma run_loud_chunk_finalize:
  "run 1200 [PostStream 0 0 0 Written (Some ''s1'') (Fin 16000) (Raw [0, 128]),
             GetFinalize 1 Written (Some ''s1'')] =
     emptyServer\<lparr>files := [(''s1'', 1) \<mapsto> [0, 128]],
       inflight := [\<lparr>jobId = ''s1'', tmpFile = (''s1'', 1), jobRate = Fin 16000,
                     fileData = [0, 128]\<rparr>]\<rparr>"
  using run_snoc [of 1200 "[PostStream 0 0 0 Written (Some ''s1'') (Fin 16000) (Raw [0, 128])]"
      "GetFinalize 1 Written (Some ''s1'')"]
  unfolding run_loud_chunk
  by (simp add: emptyServer_def runTimers_def queryId_def getFinalize_def
      finalizeAndTranscribe_def writeFileSync_def Let_def)

lemma extract_no_alternatives: "extractTranscript (replyWith []) = JStr []"
  by (simp add: extractTranscript_def replyWith_def)

lemma extract_first_alternative:
  "extractTranscript (replyWith (JObj [(''transcript'', JStr t)] # alts)) = JStr t"
  by (simp add: extractTranscript_def replyWith_def)

lemma getTranscript_absent:
  "transcripts srv (queryId q) = None \<Longrightarrow>
     getTranscript q srv = \<lparr>transcript = JStr [], ready = False\<rparr>"
  by (simp add: getTranscript_def)

lemma getTranscript_present:
  "transcripts srv (queryId q) = Some v \<Longrightarrow>
     getTranscript q srv =
       (if truthy (Some v) then \<lparr>transcript = v, ready = True\<rparr>
        else \<lparr>transcript = JStr [], ready = False\<rparr>)"
  by (simp add: getTranscript_def)

lemma getTranscript_text:
  "transcripts srv (queryId q) = Some (JStr t) \<Longrightarrow>
     getTranscript q srv =
       (if t = [] then \<lparr>transcript = JStr [], ready = False\<rparr>
        else \<lparr>transcript = JStr t, ready = True\<rparr>)"
  by (simp add: getTranscript_def)

text \<open>
  C2: a stored transcript is claimed to be read as ready, the empty string included.
  When the provider answers with no alternatives, the finalizer stores the empty string
  under the id, and a read while the entry is there answers not ready: the handler
  tests \<open>!transcript\<close>, which is true of the empty string as of a missing entry.
\<close>

theorem empty_transcript_reads_not_ready:
  "transcripts (run 1200 [PostStream 0 0 0 Written (Some ''s1'') (Fin 16000) (Raw [0, 128]),
             GetFinalize 1 Written (Some ''s1''), ProviderSettles 100 0 (Parsed (replyWith []))]) ''s1'' =
     Some (JStr []) \<and>
   transcriptAt 200 (Some ''s1'')
     (run 1200 [PostStream 0 0 0 Written (Some ''s1'') (Fin 16000) (Raw [0, 128]),
             GetFinalize 1 Written (Some ''s1''), ProviderSettles 100 0 (Parsed (replyWith []))]) =
     \<lparr>transcript = JStr [], ready = False\<rparr>"
proof -
  let ?two = "[PostStream 0 0 0 Written (Some ''s1'') (Fin 16000) (Raw [0, 128]),
             GetFinalize 1 Written (Some ''s1'')]"
  have three: "run 1200 (?two @ [ProviderSettles 100 0 (Parsed (replyWith []))]) =
     emptyServer\<lparr>transcripts := [''s1'' \<mapsto> JStr []], timers := [(5100, ''s1'')],
       console := [LogTranscript ''s1'' (JStr [])]\<rparr>"
    unfolding run_snoc run_loud_chunk_finalize
    by (simp add: emptyServer_def runTimers_def settle_parsed extract_no_alternatives)
  show ?thesis
    using three
    by (simp add: emptyServer_def transcriptAt_def runTimers_def getTranscript_def queryId_def)
qed

lemma run_first_transcript:
  "run 1200 [PostStream 0 0 0 Written (Some ''s1'') (Fin 16000) (Raw [0, 128]),
             GetFinalize 1 Written (Some ''s1''),
             ProviderSettles 100 0 (Parsed (replyWith [JObj [(''transcript'', JStr ''hello'')]]))] =
     emptyServer\<lparr>transcripts := [''s1'' \<mapsto> JStr ''hello''], timers := [(5100, ''s1'')],
       console := [LogTranscript ''s1'' (JStr ''hello'')]\<rparr>"
  using run_snoc [of 1200 "[PostStream 0 0 0 Written (Some ''s1'') (Fin 16000) (Raw [0, 128]),
             GetFinalize 1 Written (Some ''s1'')]"
      "ProviderSettles 100 0 (Parsed (replyWith [JObj [(''transcript'', JStr ''hello'')]]))"]
  unfolding run_loud_chunk_finalize
  by (simp add: emptyServer_def runTimers_def settle_parsed extract_first_alternative)

lemma run_second_transcript:
  "run 1200 [PostStream 0 0 0 Written (Some ''s1'') (Fin 16000) (Raw [0, 128]),
             GetFinalize 1 Written (Some ''s1''),
             ProviderSettles 100 0 (Parsed (replyWith [JObj [(''transcript'', JStr ''hello'')]])),
             PostStream 2000 2000 2000 Written (Some ''s1'') (Fin 16000) (Raw [0, 128]),
             GetFinalize 2001 Written (Some ''s1''),
             ProviderSettles 3000 0 (Parsed (replyWith [JObj [(''transcript'', JStr ''world'')]]))] =
     emptyServer\<lparr>transcripts := [''s1'' \<mapsto> JStr ''world''],
       timers := [(5100, ''s1''), (8000, ''s1'')],
       console := [LogTranscript ''s1'' (JStr ''hello''), LogTranscript ''s1'' (JStr ''world'')]\<rparr>"
proof -
  let ?a = "[PostStream 0 0 0 Written (Some ''s1'') (Fin 16000) (Raw [0, 128]),
             GetFinalize 1 Written (Some ''s1''),
             ProviderSettles 100 0 (Parsed (replyWith [JObj [(''transcript'', JStr ''hello'')]]))]"
  let ?s3 = "emptyServer\<lparr>transcripts := [''s1'' \<mapsto> JStr ''hello''], timers := [(5100, ''s1'')],
       console := [LogTranscript ''s1'' (JStr ''hello'')]\<rparr>"
  let ?sess = "\<lparr>audio = [[0, 128]], lastHeard = 2000, startedTalking = True,
        rmsActiveTime = Fin (1 / 16), sampleRate = Fin 16000\<rparr>"
  have four: "run 1200 (?a @ [PostStream 2000 2000 2000 Written (Some ''s1'') (Fin 16000) (Raw [0, 128])]) =
      ?s3\<lparr>sessions := [''s1'' \<mapsto> ?sess]\<rparr>"
    unfolding run_snoc run_first_transcript
    by (simp add: emptyServer_def runTimers_def postStream_def Let_def queryId_def newSession_def
        ingest_def calcRMS_full_scale js_gt_def silenceTimeout_def active_two_bytes_16000)
  have five: "run 1200 ((?a @ [PostStream 2000 2000 2000 Written (Some ''s1'') (Fin 16000) (Raw [0, 128])]) @
        [GetFinalize 2001 Written (Some ''s1'')]) =
      ?s3\<lparr>files := [(''s1'', 2001) \<mapsto> [0, 128]],
       inflight := [\<lparr>jobId = ''s1'', tmpFile = (''s1'', 2001), jobRate = Fin 16000,
                     fileData = [0, 128]\<rparr>]\<rparr>"
    unfolding run_snoc [of 1200 "?a @ [PostStream 2000 2000 2000 Written (Some ''s1'') (Fin 16000) (Raw [0, 128])]"] four
    by (simp add: emptyServer_def runTimers_def queryId_def getFinalize_def
      finalizeAndTranscribe_def writeFileSync_def Let_def)
  have six: "run 1200 (((?a @ [PostStream 2000 2000 2000 Written (Some ''s1'') (Fin 16000) (Raw [0, 128])]) @
        [GetFinalize 2001 Written (Some ''s1'')]) @
        [ProviderSettles 3000 0 (Parsed (replyWith [JObj [(''transcript'', JStr ''world'')]]))]) =
     emptyServer\<lparr>transcripts := [''s1'' \<mapsto> JStr ''world''],
       timers := [(5100, ''s1''), (8000, ''s1'')],
       console := [LogTranscript ''s1'' (JStr ''hello''), LogTranscript ''s1'' (JStr ''world'')]\<rparr>"
    unfolding run_snoc [of 1200 "(?a @ [PostStream 2000 2000 2000 Written (Some ''s1'') (Fin 16000) (Raw [0, 128])]) @
        [GetFinalize 2001 Written (Some ''s1'')]"] five
    by (simp add: emptyServer_def runTimers_def settle_parsed extract_first_alternative)
  show ?thesis using six by simp
qed

text \<open>
  C4: a transcript written at T is claimed to be readable until T + 5000, also when it
  overwrites an entry written less than 5000 ms before. The first write is at 100, the
  second for the same id at 3000. At 5000 the second transcript is read as ready; the
  timer of the first write deletes it at 5100, and the read at 6000 answers not ready,
  3000 ms after the write.
\<close>

theorem stale_timer_deletes_new_transcript:
  "transcripts (run 1200 [PostStream 0 0 0 Written (Some ''s1'') (Fin 16000) (Raw [0, 128]),
             GetFinalize 1 Written (Some ''s1''),
             ProviderSettles 100 0 (Parsed (replyWith [JObj [(''transcript'', JStr ''hello'')]])),
             PostStream 2000 2000 2000 Written (Some ''s1'') (Fin 16000) (Raw [0, 128]),
             GetFinalize 2001 Written (Some ''s1''),
             ProviderSettles 3000 0 (Parsed (replyWith [JObj [(''transcript'', JStr ''world'')]]))])
      ''s1'' = Some (JStr ''world'') \<and>
   transcriptAt 5000 (Some ''s1'')
     (run 1200 [PostStream 0 0 0 Written (Some ''s1'') (Fin 16000) (Raw [0, 128]),
             GetFinalize 1 Written (Some ''s1''),
             ProviderSettles 100 0 (Parsed (replyWith [JObj [(''transcript'', JStr ''hello'')]])),
             PostStream 2000 2000 2000 Written (Some ''s1'') (Fin 16000) (Raw [0, 128]),
             GetFinalize 2001 Written (Some ''s1''),
             ProviderSettles 3000 0 (Parsed (replyWith [JObj [(''transcript'', JStr ''world'')]]))]) =
     \<lparr>transcript = JStr ''world'', ready = True\<rparr> \<and>
   transcriptAt 6000 (Some ''s1'')
     (run 1200 [PostStream 0 0 0 Written (Some ''s1'') (Fin 16000) (Raw [0, 128]),
             GetFinalize 1 Written (Some ''s1''),
             ProviderSettles 100 0 (Parsed (replyWith [JObj [(''transcript'', JStr ''hello'')]])),
             PostStream 2000 2000 2000 Written (Some ''s1'') (Fin 16000) (Raw [0, 128]),
             GetFinalize 2001 Written (Some ''s1''),
             ProviderSettles 3000 0 (Parsed (replyWith [JObj [(''transcript'', JStr ''world'')]]))]) =
     \<lparr>transcript = JStr [], ready = False\<rparr>"
  unfolding run_second_transcript
  by (simp add: emptyServer_def transcriptAt_def runTimers_def getTranscript_def queryId_def)


text \<open>
  C7 as stated fails for a provider failure that is answered, not thrown: an error status
  with a JSON body. The code never reads the status; the body has no transcript, so the
  empty string is written to the transcript map under the id and its timer is set.
\<close>

theorem refused_request_writes_entry:
  "run 1200 [PostStream 0 0 0 Written (Some ''s1'') (Fin 16000) (Raw [0, 128]),
             GetFinalize 1 Written (Some ''s1''),
             ProviderSettles 100 0
               (Refused 401 (JObj [(''err_code'', JStr ''INVALID_AUTH'')]))] =
     emptyServer\<lparr>transcripts := [''s1'' \<mapsto> JStr []], timers := [(5100, ''s1'')],
       console := [LogTranscript ''s1'' (JStr [])]\<rparr> \<and>
   transcripts
     (run 1200 [PostStream 0 0 0 Written (Some ''s1'') (Fin 16000) (Raw [0, 128]),
             GetFinalize 1 Written (Some ''s1''),
             ProviderSettles 100 0
               (Refused 401 (JObj [(''err_code'', JStr ''INVALID_AUTH'')]))]) ''s1'' =
     Some (JStr [])"
proof -
  have e: "extractTranscript (JObj [(''err_code'', JStr ''INVALID_AUTH'')]) = JStr []"
    by (simp add: extractTranscript_def)
  have three: "run 1200 ([PostStream 0 0 0 Written (Some ''s1'') (Fin 16000) (Raw [0, 128]),
             GetFinalize 1 Written (Some ''s1'')] @
             [ProviderSettles 100 0
               (Refused 401 (JObj [(''err_code'', JStr ''INVALID_AUTH'')]))]) =
     emptyServer\<lparr>transcripts := [''s1'' \<mapsto> JStr []], timers := [(5100, ''s1'')],
       console := [LogTranscript ''s1'' (JStr [])]\<rparr>"
    unfolding run_snoc run_loud_chunk_finalize
    by (simp add: emptyServer_def runTimers_def settle_refused settle_parsed e)
  show ?thesis using three by (simp add: emptyServer_def)
qed

text \<open>
  C7, as amended: a session with audio is finalized, the scratch file is written and the
  request is sent. When \<open>fetch\<close> or \<open>resp.json()\<close> then throws, in whatever state of the
  process, the error is caught: the call settles without an error, and the state changes
  only by the line on the console and by the removal of the scratch file, so no transcript
  is written, no timer is set and the session is not put back. When the provider answers
  a failure with an error status and a JSON body, nothing is thrown: the text found in
  the body, the empty string when there is none, is stored like a transcript, and the
  scratch file is removed.
\<close>

theorem provider_failure_contained:
  assumes "sessions srv sid = Some session" and "audio session \<noteq> []"
    and "out = FetchRejected \<or> out = JsonRejected"
    and "j = \<lparr>jobId = sid, tmpFile = (sid, clock), jobRate = sampleRate session,
               fileData = concat (audio session)\<rparr>"
  shows "finalizeAndTranscribe clock Written sid srv =
       (srv\<lparr>sessions := (sessions srv)(sid := None),
            files := (files srv)((sid, clock) \<mapsto> concat (audio session)),
            inflight := inflight srv @ [j]\<rparr>, Inr ()) \<and>
     settle clock' out j (fst (finalizeAndTranscribe clock Written sid srv)) =
       (srv\<lparr>sessions := (sessions srv)(sid := None),
            files := (files srv)((sid, clock) := None),
            inflight := inflight srv @ [j],
            console := console srv @ [LogDeepgramError sid]\<rparr>, Inr ()) \<and>
     settle clock' out j later =
       (later\<lparr>console := console later @ [LogDeepgramError sid],
              files := (files later)((sid, clock) := None)\<rparr>, Inr ()) \<and>
     settle clock' (Refused status body) j later =
       (later\<lparr>console := console later @ [LogTranscript sid (extractTranscript body)],
              transcripts := (transcripts later)(sid \<mapsto> extractTranscript body),
              timers := timers later @ [(clock' + 5000, sid)],
              files := (files later)((sid, clock) := None)\<rparr>, Inr ())"
  using assms(3,4)
  by (simp add: finalize_written [OF assms(1,2)] settle_failed settle_refused settle_parsed)

theorem provider_failure_contained_witness:
  "sessions (emptyServer\<lparr>sessions := [''s1'' \<mapsto>
       \<lparr>audio = [[0, 128]], lastHeard = 0, startedTalking = True,
        rmsActiveTime = Fin (1 / 16), sampleRate = Fin 16000\<rparr>]\<rparr>) ''s1'' =
     Some \<lparr>audio = [[0, 128]], lastHeard = 0, startedTalking = True,
        rmsActiveTime = Fin (1 / 16), sampleRate = Fin 16000\<rparr> \<and>
   settle 40 JsonRejected
       \<lparr>jobId = ''s1'', tmpFile = (''s1'', 1), jobRate = Fin 16000, fileData = [0, 128]\<rparr>
       (fst (finalizeAndTranscribe 1 Written ''s1'' (emptyServer\<lparr>sessions := [''s1'' \<mapsto>
          \<lparr>audio = [[0, 128]], lastHeard = 0, startedTalking = True,
           rmsActiveTime = Fin (1 / 16), sampleRate = Fin 16000\<rparr>]\<rparr>))) =
     (emptyServer\<lparr>console := [LogDeepgramError ''s1''],
        inflight := [\<lparr>jobId = ''s1'', tmpFile = (''s1'', 1), jobRate = Fin 16000,
                      fileData = [0, 128]\<rparr>]\<rparr>, Inr ())"
proof -
  let ?session = "\<lparr>audio = [[0, 128]], lastHeard = 0, startedTalking = True,
        rmsActiveTime = Fin (1 / 16), sampleRate = Fin 16000\<rparr>"
  let ?srv = "emptyServer\<lparr>sessions := [''s1'' \<mapsto> ?session]\<rparr>"
  have a: "sessions ?srv ''s1'' = Some ?session" by simp
  have b: "audio ?session \<noteq> []" by simp
  have c: "JsonRejected = FetchRejected \<or> JsonRejected = JsonRejected" by simp
  have d: "\<lparr>jobId = ''s1'', tmpFile = (''s1'', 1), jobRate = Fin 16000, fileData = [0, 128]\<rparr> =
     \<lparr>jobId = ''s1'', tmpFile = (''s1'', 1), jobRate = sampleRate ?session,
       fileData = concat (audio ?session)\<rparr>" by simp
  have "settle 40 JsonRejected
       \<lparr>jobId = ''s1'', tmpFile = (''s1'', 1), jobRate = Fin 16000, fileData = [0, 128]\<rparr>
       (fst (finalizeAndTranscribe 1 Written ''s1'' ?srv)) =
       (?srv\<lparr>sessions := (sessions ?srv)(''s1'' := None),
            files := (files ?srv)((''s1'', 1) := None),
            inflight := inflight ?srv @
              [\<lparr>jobId = ''s1'', tmpFile = (''s1'', 1), jobRate = Fin 16000,
                fileData = [0, 128]\<rparr>],
            console := console ?srv @ [LogDeepgramError ''s1'']\<rparr>, Inr ())"
    by (rule provider_failure_contained [OF a b c d, of 40 emptyServer 0 JNull,
          THEN conjunct2, THEN conjunct1])
  then show ?thesis using a by (simp add: emptyServer_def)
qed

text \<open>
  C6 as stated fails: a session with audio, two manual finalize calls, and a provider
  call that is rejected. The transcript map stays empty and no timer is set, where the
  claim has exactly one write; with an answer of the provider instead, the same calls
  end in the one entry and its one timer.
\<close>

theorem failed_provider_no_write:
  "run 1200 [PostStream 0 0 0 Written (Some ''s1'') (Fin 16000) (Raw [0, 128]),
             GetFinalize 1 Written (Some ''s1''), GetFinalize 2 Written (Some ''s1''),
             ProviderSettles 3 0 FetchRejected] =
     emptyServer\<lparr>console := [LogDeepgramError ''s1'']\<rparr> \<and>
   transcripts (emptyServer\<lparr>console := [LogDeepgramError ''s1'']\<rparr>) = Map.empty \<and>
   run 1200 [PostStream 0 0 0 Written (Some ''s1'') (Fin 16000) (Raw [0, 128]),
             GetFinalize 1 Written (Some ''s1''), GetFinalize 2 Written (Some ''s1''),
             ProviderSettles 3 0 (Parsed (replyWith [JObj [(''transcript'', JStr ''hello'')]]))] =
     emptyServer\<lparr>transcripts := [''s1'' \<mapsto> JStr ''hello''], timers := [(5003, ''s1'')],
       console := [LogTranscript ''s1'' (JStr ''hello'')]\<rparr>"
proof -
  let ?two = "[PostStream 0 0 0 Written (Some ''s1'') (Fin 16000) (Raw [0, 128]),
             GetFinalize 1 Written (Some ''s1'')]"
  have three: "run 1200 (?two @ [GetFinalize 2 Written (Some ''s1'')]) = run 1200 ?two"
    unfolding run_snoc run_loud_chunk_finalize
    by (simp add: emptyServer_def runTimers_def queryId_def getFinalize_def)
  have four: "run 1200 ((?two @ [GetFinalize 2 Written (Some ''s1'')]) @
        [ProviderSettles 3 0 FetchRejected]) =
     emptyServer\<lparr>console := [LogDeepgramError ''s1'']\<rparr>"
    unfolding run_snoc [of 1200 "?two @ [GetFinalize 2 Written (Some ''s1'')]"] three
      run_loud_chunk_finalize
    by (simp add: emptyServer_def runTimers_def settle_failed)
  have five: "run 1200 ((?two @ [GetFinalize 2 Written (Some ''s1'')]) @
        [ProviderSettles 3 0 (Parsed (replyWith [JObj [(''transcript'', JStr ''hello'')]]))]) =
     emptyServer\<lparr>transcripts := [''s1'' \<mapsto> JStr ''hello''], timers := [(5003, ''s1'')],
       console := [LogTranscript ''s1'' (JStr ''hello'')]\<rparr>"
    unfolding run_snoc [of 1200 "?two @ [GetFinalize 2 Written (Some ''s1'')]"] three
      run_loud_chunk_finalize
    by (simp add: emptyServer_def runTimers_def settle_parsed extract_first_alternative)
  show ?thesis using four five by (simp add: emptyServer_def)
qed

text \<open>
  C6, as amended: for a session that holds audio, the first manual finalize answers
  \<open>Finalizing...\<close> and takes the session out of the map before any answer of the provider;
  it sends one request when the scratch file is written, and none when the write throws.
  A second manual finalize, whatever the first did and before or after the answer of the
  provider, answers 404 and leaves the whole state as it is. The one request ends in
  exactly one write (one entry of the transcript map and one timer) when the provider
  answers with a body, and in none when the call or the parsing throws.
\<close>

theorem second_finalize_is_noop:
  assumes "sessions srv (queryId q) = Some session" and "audio session \<noteq> []"
    and "j = \<lparr>jobId = queryId q, tmpFile = (queryId q, clock1), jobRate = sampleRate session,
               fileData = concat (audio session)\<rparr>"
    and "srv1 = srv\<lparr>sessions := (sessions srv)(queryId q := None),
               files := (files srv)((queryId q, clock1) \<mapsto> concat (audio session)),
               inflight := inflight srv @ [j]\<rparr>"
  shows "getFinalize clock1 Written q srv = (srv1, Sent ''Finalizing...'') \<and>
     getFinalize clock1 Throws q srv =
       (srv\<lparr>sessions := (sessions srv)(queryId q := None)\<rparr>, Sent ''Finalizing...'') \<and>
     getFinalize clock2 w2 q (fst (getFinalize clock1 w1 q srv)) =
       (fst (getFinalize clock1 w1 q srv), Status404 ''No active session'') \<and>
     fst (settle clock3 (Parsed body) j srv1) =
       srv1\<lparr>console := console srv @ [LogTranscript (queryId q) (extractTranscript body)],
            transcripts := (transcripts srv)(queryId q \<mapsto> extractTranscript body),
            timers := timers srv @ [(clock3 + 5000, queryId q)],
            files := (files srv)((queryId q, clock1) := None)\<rparr> \<and>
     fst (settle clock3 FetchRejected j srv1) =
       srv1\<lparr>console := console srv @ [LogDeepgramError (queryId q)],
            files := (files srv)((queryId q, clock1) := None)\<rparr> \<and>
     fst (settle clock3 JsonRejected j srv1) =
       srv1\<lparr>console := console srv @ [LogDeepgramError (queryId q)],
            files := (files srv)((queryId q, clock1) := None)\<rparr> \<and>
     getFinalize clock2 w2 q (fst (settle clock3 out j srv1)) =
       (fst (settle clock3 out j srv1), Status404 ''No active session'')"
proof -
  have first: "getFinalize clock1 Written q srv = (srv1, Sent ''Finalizing...'')"
    using getFinalize_present [OF assms(1), of clock1 Written]
      finalize_written [OF assms(1,2), of clock1] assms(3,4) by simp
  have thrown: "getFinalize clock1 Throws q srv =
       (srv\<lparr>sessions := (sessions srv)(queryId q := None)\<rparr>, Sent ''Finalizing...'')"
    using getFinalize_present [OF assms(1), of clock1 Throws]
      finalize_throws [OF assms(1,2), of clock1] by simp
  have "sessions (fst (getFinalize clock1 w1 q srv)) (queryId q) = None"
    by (rule getFinalize_removes)
  then have second: "getFinalize clock2 w2 q (fst (getFinalize clock1 w1 q srv)) =
       (fst (getFinalize clock1 w1 q srv), Status404 ''No active session'')"
    by (rule getFinalize_absent)
  have gone: "sessions srv1 (queryId q) = None"
    using assms(4) by simp
  have parsed: "fst (settle clock3 (Parsed body) j srv1) =
       srv1\<lparr>console := console srv @ [LogTranscript (queryId q) (extractTranscript body)],
            transcripts := (transcripts srv)(queryId q \<mapsto> extractTranscript body),
            timers := timers srv @ [(clock3 + 5000, queryId q)],
            files := (files srv)((queryId q, clock1) := None)\<rparr>"
    using assms(3,4) by (simp add: settle_parsed)
  have failed: "fst (settle clock3 o' j srv1) =
       srv1\<lparr>console := console srv @ [LogDeepgramError (queryId q)],
            files := (files srv)((queryId q, clock1) := None)\<rparr>"
    if "o' = FetchRejected \<or> o' = JsonRejected" for o'
    using assms(3,4) that by (simp add: settle_failed)
  have "sessions (fst (settle clock3 out j srv1)) (queryId q) = None"
    using gone by (cases out) (simp_all add: settle_failed settle_parsed settle_refused)
  then have third: "getFinalize clock2 w2 q (fst (settle clock3 out j srv1)) =
       (fst (settle clock3 out j srv1), Status404 ''No active session'')"
    by (rule getFinalize_absent)
  show ?thesis
    using first thrown second parsed failed [of FetchRejected] failed [of JsonRejected] third
    by simp
qed

theorem second_finalize_is_noop_witness:
  "sessions (run 1200 [PostStream 0 0 0 Written (Some ''s1'') (Fin 16000) (Raw [0, 128])])
      (queryId (Some ''s1'')) =
     Some \<lparr>audio = [[0, 128]], lastHeard = 0, startedTalking = True,
           rmsActiveTime = Fin (1 / 16), sampleRate = Fin 16000\<rparr> \<and>
   getFinalize 1 Written (Some ''s1'')
       (run 1200 [PostStream 0 0 0 Written (Some ''s1'') (Fin 16000) (Raw [0, 128])]) =
     (emptyServer\<lparr>files := [(''s1'', 1) \<mapsto> [0, 128]],
        inflight := [\<lparr>jobId = ''s1'', tmpFile = (''s1'', 1), jobRate = Fin 16000,
                      fileData = [0, 128]\<rparr>]\<rparr>, Sent ''Finalizing...'') \<and>
   getFinalize 2 Written (Some ''s1'')
       (emptyServer\<lparr>files := [(''s1'', 1) \<mapsto> [0, 128]],
          inflight := [\<lparr>jobId = ''s1'', tmpFile = (''s1'', 1), jobRate = Fin 16000,
                        fileData = [0, 128]\<rparr>]\<rparr>) =
     (emptyServer\<lparr>files := [(''s1'', 1) \<mapsto> [0, 128]],
        inflight := [\<lparr>jobId = ''s1'', tmpFile = (''s1'', 1), jobRate = Fin 16000,
                      fileData = [0, 128]\<rparr>]\<rparr>, Status404 ''No active session'') \<and>
   fst (settle 3 (Parsed JNull)
       \<lparr>jobId = ''s1'', tmpFile = (''s1'', 1), jobRate = Fin 16000, fileData = [0, 128]\<rparr>
       (emptyServer\<lparr>files := [(''s1'', 1) \<mapsto> [0, 128]],
          inflight := [\<lparr>jobId = ''s1'', tmpFile = (''s1'', 1), jobRate = Fin 16000,
                        fileData = [0, 128]\<rparr>]\<rparr>)) =
     emptyServer\<lparr>transcripts := [''s1'' \<mapsto> JStr []], timers := [(5003, ''s1'')],
       console := [LogTranscript ''s1'' (JStr [])],
       inflight := [\<lparr>jobId = ''s1'', tmpFile = (''s1'', 1), jobRate = Fin 16000,
                      fileData = [0, 128]\<rparr>]\<rparr>"
proof -
  let ?session = "\<lparr>audio = [[0, 128]], lastHeard = 0, startedTalking = True,
        rmsActiveTime = Fin (1 / 16), sampleRate = Fin 16000\<rparr>"
  let ?srv = "run 1200 [PostStream 0 0 0 Written (Some ''s1'') (Fin 16000) (Raw [0, 128])]"
  let ?j = "\<lparr>jobId = ''s1'', tmpFile = (''s1'', 1), jobRate = Fin 16000, fileData = [0, 128]\<rparr>"
  let ?srv1 = "emptyServer\<lparr>files := [(''s1'', 1) \<mapsto> [0, 128]], inflight := [?j]\<rparr>"
  have q: "queryId (Some ''s1'') = ''s1''" by (simp add: queryId_def)
  have a: "sessions ?srv (queryId (Some ''s1'')) = Some ?session"
    unfolding run_loud_chunk q by simp
  have b: "audio ?session \<noteq> []" by simp
  have d: "?j = \<lparr>jobId = queryId (Some ''s1''), tmpFile = (queryId (Some ''s1''), 1),
      jobRate = sampleRate ?session, fileData = concat (audio ?session)\<rparr>"
    by (simp add: q)
  have e: "?srv1 = ?srv\<lparr>sessions := (sessions ?srv)(queryId (Some ''s1'') := None),
               files := (files ?srv)((queryId (Some ''s1''), 1) \<mapsto> concat (audio ?session)),
               inflight := inflight ?srv @ [?j]\<rparr>"
    unfolding run_loud_chunk q by (simp add: emptyServer_def)
  have x: "extractTranscript JNull = JStr []"
    by (simp add: extractTranscript_def)
  have f: "console ?srv = []" "transcripts ?srv = Map.empty" "timers ?srv = []"
    "files ?srv = Map.empty"
    unfolding run_loud_chunk by (simp_all add: emptyServer_def)
  note t = second_finalize_is_noop [OF a b d e, of 2 Written Written 3 JNull FetchRejected]
  have one: "getFinalize 1 Written (Some ''s1'') ?srv = (?srv1, Sent ''Finalizing...'')"
    by (rule t [THEN conjunct1])
  have two: "getFinalize 2 Written (Some ''s1'') ?srv1 =
      (?srv1, Status404 ''No active session'')"
    using t [THEN conjunct2, THEN conjunct2, THEN conjunct1] unfolding one by simp
  have three: "fst (settle 3 (Parsed JNull) ?j ?srv1) =
     emptyServer\<lparr>transcripts := [''s1'' \<mapsto> JStr []], timers := [(5003, ''s1'')],
       console := [LogTranscript ''s1'' (JStr [])], inflight := [?j]\<rparr>"
    using t [THEN conjunct2, THEN conjunct2, THEN conjunct2, THEN conjunct1]
    unfolding q f x by (simp add: emptyServer_def)
  show ?thesis
    using a one two three unfolding q by simp
qed

section \<open>Expiry of transcripts\<close>

lemma foldl_delete:
  "foldl (\<lambda>m tid. m(snd tid := None)) m xs k = (if k \<in> snd ` set xs then None else m k)"
  by (induction xs arbitrary: m) auto

lemma transcripts_runTimers:
  "transcripts (runTimers clock srv) sid =
     (if sid \<in> snd ` set (filter (\<lambda>tid. fst tid \<le> clock) (timers srv)) then None
      else transcripts srv sid)"
  by (simp add: runTimers_def foldl_delete)

text \<open>
  A transcript written at \<open>clock\<close> for an id with no older timer pending is read as
  written (when it is truthy, so not the empty string) until \<open>clock + 5000\<close>, and is
  gone from then on.
\<close>

lemma transcript_window:
  assumes "queryId q \<notin> snd ` set (timers srv)" and "jobId j = queryId q"
  shows "clock \<le> t \<Longrightarrow> t < clock + 5000 \<Longrightarrow>
           transcriptAt t q (fst (settle clock (Parsed body) j srv)) =
             (if truthy (Some (extractTranscript body))
              then \<lparr>transcript = extractTranscript body, ready = True\<rparr>
              else \<lparr>transcript = JStr [], ready = False\<rparr>)"
    and "clock + 5000 \<le> t \<Longrightarrow>
           transcriptAt t q (fst (settle clock (Parsed body) j srv)) =
             \<lparr>transcript = JStr [], ready = False\<rparr>"
proof -
  let ?srv' = "fst (settle clock (Parsed body) j srv)"
  have tm: "timers ?srv' = timers srv @ [(clock + 5000, queryId q)]"
    using assms(2) by (simp add: settle_parsed)
  have tr: "transcripts ?srv' (queryId q) = Some (extractTranscript body)"
    using assms(2) by (simp add: settle_parsed)
  {
    assume "clock \<le> t" and "t < clock + 5000"
    then have "queryId q \<notin> snd ` set (filter (\<lambda>tid. fst tid \<le> t) (timers ?srv'))"
      using assms(1) tm by auto
    then have "transcripts (runTimers t ?srv') (queryId q) = Some (extractTranscript body)"
      using tr by (simp add: transcripts_runTimers)
    then show "transcriptAt t q ?srv' =
             (if truthy (Some (extractTranscript body))
              then \<lparr>transcript = extractTranscript body, ready = True\<rparr>
              else \<lparr>transcript = JStr [], ready = False\<rparr>)"
      unfolding transcriptAt_def by (rule getTranscript_present)
  }
  {
    assume "clock + 5000 \<le> t"
    then have "(clock + 5000, queryId q) \<in> set (filter (\<lambda>tid. fst tid \<le> t) (timers ?srv'))"
      using tm by simp
    then have "queryId q \<in> snd ` set (filter (\<lambda>tid. fst tid \<le> t) (timers ?srv'))"
      by (rule rev_image_eqI) simp
    then have "transcripts (runTimers t ?srv') (queryId q) = None"
      by (simp add: transcripts_runTimers)
    then show "transcriptAt t q ?srv' = \<lparr>transcript = JStr [], ready = False\<rparr>"
      unfolding transcriptAt_def by (rule getTranscript_absent)
  }
qed

section \<open>Sessions hold audio\<close>

lemma runTimers_sessions: "sessions (runTimers clock srv) = sessions srv"
  by (simp add: runTimers_def)

lemma runTimers_console: "console (runTimers clock srv) = console srv"
  by (simp add: runTimers_def)

lemma runTimers_audioKept: "audioKept (runTimers clock srv) = audioKept srv"
  by (simp add: audioKept_def runTimers_sessions runTimers_console)

lemma finalize_audioKept:
  "audioKept srv \<Longrightarrow> audioKept (fst (finalizeAndTranscribe clock w sid srv))"
proof (cases "sessions srv sid")
  case None
  assume "audioKept srv"
  then show ?thesis using None by (simp add: finalize_absent)
next
  case (Some session)
  assume k: "audioKept srv"
  then have "audio session \<noteq> []" using Some by (simp add: audioKept_def)
  then show ?thesis
    using k
    by (cases w) (simp_all add: finalize_written [OF Some] finalize_throws [OF Some] audioKept_def)
qed

lemma touched_audio:
  assumes "audioKept srv"
  shows "audio (touched clock0 now q rate chunk srv) \<noteq> []"
proof (cases "sessions srv (queryId q)")
  case None
  then show ?thesis by (simp add: touched_def ingest_def newSession_def)
next
  case (Some session)
  then have "audio session \<noteq> []" using assms by (simp add: audioKept_def)
  then show ?thesis using Some by (simp add: touched_def ingest_def)
qed

lemma postStream_audioKept:
  assumes "audioKept srv"
  shows "audioKept (fst (postStream silence clock0 now clock2 w q rate (Raw chunk) srv))"
proof -
  let ?srv2 = "srv\<lparr>sessions := (sessions srv)(queryId q \<mapsto> touched clock0 now q rate chunk srv)\<rparr>"
  have k2: "audioKept ?srv2"
    using assms touched_audio [OF assms, of clock0 now q rate chunk] by (simp add: audioKept_def)
  then have k3: "audioKept (?srv2\<lparr>console := console ?srv2 @ [LogSilence (queryId q)]\<rparr>)"
    by (simp add: audioKept_def)
  show ?thesis
    using k2 finalize_audioKept [OF k3, of clock2 w "queryId q"]
    by (simp add: postStream_touched Let_def)
qed

lemma getFinalize_audioKept:
  "audioKept srv \<Longrightarrow> audioKept (fst (getFinalize clock w q srv))"
  by (simp add: getFinalize_def Let_def finalize_audioKept)

lemma settle_audioKept: "audioKept srv \<Longrightarrow> audioKept (fst (settle clock out j srv))"
  by (cases out) (simp_all add: settle_failed settle_parsed settle_refused audioKept_def)

lemma exec_audioKept:
  assumes "audioKept srv" and "parsedBody e"
  shows "audioKept (exec silence srv e)"
proof (cases e)
  case (PostStream clock0 now clock2 w q rate b)
  then obtain chunk where b: "b = Raw chunk" using assms(2) by (cases b) auto
  have "audioKept (runTimers clock0 srv)" using assms(1) by (simp add: runTimers_audioKept)
  then show ?thesis using PostStream b by (simp add: postStream_audioKept)
next
  case (GetTranscript clock q)
  then show ?thesis using assms(1) by (simp add: runTimers_audioKept)
next
  case (GetFinalize clock w q)
  have "audioKept (runTimers clock srv)" using assms(1) by (simp add: runTimers_audioKept)
  then show ?thesis using GetFinalize by (simp add: getFinalize_audioKept)
next
  case (ProviderSettles clock k out)
  let ?srv1 = "runTimers clock srv"
  have k1: "audioKept ?srv1" using assms(1) by (simp add: runTimers_audioKept)
  then have "audioKept (?srv1\<lparr>inflight := take k (inflight ?srv1) @ drop (Suc k) (inflight ?srv1)\<rparr>)"
    by (simp add: audioKept_def)
  then show ?thesis using ProviderSettles k1 by (simp add: Let_def settle_audioKept)
qed

lemma foldl_exec_audioKept:
  "audioKept srv \<Longrightarrow> list_all parsedBody evs \<Longrightarrow> audioKept (foldl (exec silence) srv evs)"
proof (induction evs arbitrary: srv)
  case Nil
  then show ?case by simp
next
  case (Cons e evs)
  have "audioKept (exec silence srv e)" using Cons.prems by (simp add: exec_audioKept)
  then show ?case using Cons.IH [of "exec silence srv e"] Cons.prems by simp
qed

text \<open>
  C10, as amended: in every run of the process in which each stream request carries a
  body that the middleware parsed into a buffer, every session in the map holds at least
  one chunk, and no finalization reaches the empty-audio return.
\<close>

theorem sessions_with_parsed_bodies_hold_audio:
  assumes "list_all parsedBody evs"
  shows "(\<forall>sid session. sessions (run silence evs) sid = Some session \<longrightarrow> audio session \<noteq> []) \<and>
         (\<forall>sid. LogNoAudio sid \<notin> set (console (run silence evs)))"
proof -
  have "audioKept emptyServer" by (simp add: audioKept_def emptyServer_def)
  then have "audioKept (run silence evs)"
    unfolding run_def using assms by (rule foldl_exec_audioKept)
  then show ?thesis by (simp add: audioKept_def)
qed

theorem sessions_with_parsed_bodies_hold_audio_witness:
  "list_all parsedBody [PostStream 0 0 0 Written (Some ''s1'') (Fin 16000) (Raw [0, 128])] \<and>
   (\<exists>session. sessions (run 1200 [PostStream 0 0 0 Written (Some ''s1'') (Fin 16000) (Raw [0, 128])]) ''s1'' =
       Some session \<and> audio session \<noteq> []) \<and>
   LogNoAudio ''s1'' \<notin> set (console (run 1200 [PostStream 0 0 0 Written (Some ''s1'') (Fin 16000) (Raw [0, 128])]))"
proof -
  have a: "list_all parsedBody [PostStream 0 0 0 Written (Some ''s1'') (Fin 16000) (Raw [0, 128])]"
    by simp
  have b: "sessions (run 1200 [PostStream 0 0 0 Written (Some ''s1'') (Fin 16000) (Raw [0, 128])]) ''s1'' \<noteq> None"
    unfolding run_loud_chunk by simp
  show ?thesis
    using a b sessions_with_parsed_bodies_hold_audio [OF a, of 1200] by auto
qed

text \<open>
  C10 as stated fails: a stream request whose body is not a buffer creates the session
  and then throws at \<open>Buffer.from\<close>, before any chunk is appended. The session stays in the
  map with an empty audio list, and a manual finalize of it ends at the empty-audio
  return.
\<close>

theorem unparsed_body_leaves_empty_session:
  "sessions (run 1200 [PostStream 0 0 0 Written (Some ''s1'') (Fin 16000) Unparsed]) ''s1'' =
     Some \<lparr>audio = [], lastHeard = 0, startedTalking = False, rmsActiveTime = Fin 0,
           sampleRate = Fin 16000\<rparr> \<and>
   snd (postStream 1200 0 0 0 Written (Some ''s1'') (Fin 16000) Unparsed emptyServer) = Inl TypeError \<and>
   console (run 1200 [PostStream 0 0 0 Written (Some ''s1'') (Fin 16000) Unparsed,
                      GetFinalize 1 Written (Some ''s1'')]) = [LogNoAudio ''s1'']"
proof -
  have one: "run 1200 [PostStream 0 0 0 Written (Some ''s1'') (Fin 16000) Unparsed] =
      emptyServer\<lparr>sessions := [''s1'' \<mapsto> newSession 0 (Fin 16000)]\<rparr>"
    using run_snoc [of 1200 "[]" "PostStream 0 0 0 Written (Some ''s1'') (Fin 16000) Unparsed"]
    by (simp add: run_Nil runTimers_def emptyServer_def postStream_def Let_def queryId_def)
  have two: "run 1200 ([PostStream 0 0 0 Written (Some ''s1'') (Fin 16000) Unparsed] @
                      [GetFinalize 1 Written (Some ''s1'')]) =
      emptyServer\<lparr>console := [LogNoAudio ''s1'']\<rparr>"
    unfolding run_snoc one
    by (simp add: runTimers_def emptyServer_def getFinalize_def queryId_def
        finalizeAndTranscribe_def Let_def newSession_def)
  show ?thesis
    using one two by (simp add: newSession_def postStream_def Let_def emptyServer_def)
qed

end
